theory Spec2Isabelle
  imports
    Main
    "HOL-Library.Option_ord"
    "HOL-Library.Product_Lexorder"
    "HOL-Library.Word"
begin

text \<open>
  The read side of the Things bridge: the module that queries the task store of the
  Things application and decodes its rows into to-dos and projects.  The first part of
  the theory is the module, function by function; the second part proves properties
  of it.
\<close>

section \<open>Enumerations of the task table\<close>

text \<open>
  The query module reads the task table of the Things store.  Small integer codes are
  mapped to string-literal unions; each union is a datatype here.
\<close>

datatype status_label = S_incomplete | S_completed | S_canceled

datatype type_label = T_to_do | T_project | T_heading

datatype start_label = Inbox | Anytime | Someday

definition STATUS_INCOMPLETE :: int where "STATUS_INCOMPLETE = 0"
definition STATUS_CANCELED :: int where "STATUS_CANCELED = 2"
definition STATUS_COMPLETED :: int where "STATUS_COMPLETED = 3"

definition TYPE_TODO :: int where "TYPE_TODO = 0"
definition TYPE_PROJECT :: int where "TYPE_PROJECT = 1"
definition TYPE_HEADING :: int where "TYPE_HEADING = 2"

definition START_BUCKET_ANYTIME :: int where "START_BUCKET_ANYTIME = 0"
definition START_BUCKET_SOMEDAY :: int where "START_BUCKET_SOMEDAY = 1"

definition statusToString :: "int \<Rightarrow> status_label" where
  "statusToString status =
     (if status = STATUS_COMPLETED then S_completed
      else if status = STATUS_CANCELED then S_canceled
      else S_incomplete)"

definition typeToString :: "int \<Rightarrow> type_label" where
  "typeToString ty =
     (if ty = TYPE_PROJECT then T_project
      else if ty = TYPE_HEADING then T_heading
      else T_to_do)"

text \<open>
  \<open>startToString\<close> has the declared result type \<open>"Inbox" | "Anytime" | "Someday" | null\<close>,
  so the model returns an option; a nullable number is an \<open>int option\<close>.
\<close>

definition startToString :: "int option \<Rightarrow> int option \<Rightarrow> int option \<Rightarrow> start_label option" where
  "startToString start startBucket startDate =
     (if start = Some 2 then Some Someday
      else if start = Some 1 \<and> startDate \<noteq> None then Some Anytime
      else if startBucket = Some START_BUCKET_SOMEDAY then Some Someday
      else if start = Some 0 \<and> startDate = None then Some Inbox
      else Some Anytime)"

subsection \<open>The precedence table of the specification\<close>

text \<open>
  This second definition follows the words of the specification, not the code: five rules,
  each a condition on the three raw inputs with its bucket, and the first rule whose
  condition holds decides.
\<close>

definition spec_precedence_rules ::
  "int option \<Rightarrow> int option \<Rightarrow> int option \<Rightarrow> (bool \<times> start_label) list" where
  "spec_precedence_rules explicitFlag bucketCode startDate =
     [ (explicitFlag = Some 2, Someday),
       (explicitFlag = Some 1 \<and> startDate \<noteq> None, Anytime),
       (bucketCode = Some 1, Someday),
       (explicitFlag = Some 0 \<and> startDate = None, Inbox),
       (True, Anytime) ]"

fun first_match :: "(bool \<times> 'a) list \<Rightarrow> 'a option" where
  "first_match [] = None"
| "first_match ((c, v) # rest) = (if c then Some v else first_match rest)"

section \<open>The store\<close>

text \<open>
  The tables the queries read.  A nullable column is an option.  Several tables and the
  rows handed to JavaScript share column names, so fields are written qualified
  (\<open>TMTask.uuid t\<close> for the SQL \<open>t.uuid\<close>).

  The recurrence-rule column reaches JavaScript as \<open>unknown\<close>: \<open>null\<close>, a
  \<open>Uint8Array\<close>, a byte-indexed plain object (its values in index order; an element that
  is a BigInt cannot be converted to a number), a string (UTF-16 code units) or a number.
\<close>

datatype js_element = ElemNumber int | ElemBigInt int

datatype js_raw =
    RawNull
  | RawUint8Array "8 word list"
  | RawObject "js_element list"
  | RawString "16 word list"
  | RawNumber int

record TMTask =
  uuid :: string
  title :: "string option"
  type :: int
  status :: int
  start :: "int option"
  "notes" :: "string option"
  startDate :: "int option"
  startBucket :: "int option"
  deadline :: "int option"
  creationDate :: "int option"
  userModificationDate :: "int option"
  stopDate :: "int option"
  project :: "string option"
  area :: "string option"
  reminderTime :: "int option"
  rt1_recurrenceRule :: js_raw
  rt1_nextInstanceStartDate :: "int option"
  rt1_instanceCreationPaused :: "int option"
  trashed :: "int option"
  heading :: "string option"
  todayIndex :: "int option"
  index :: "int option"

record TMArea =
  uuid :: string
  title :: string

record TMTag =
  uuid :: string
  title :: string
  shortcut :: "string option"

record TMTaskTag =
  tasks :: string
  tags :: string

record TMChecklistItem =
  uuid :: string
  title :: string
  status :: int
  task :: string
  index :: "int option"

record database =
  TMTask_table :: "TMTask list"
  TMArea_table :: "TMArea list"
  TMTag_table :: "TMTag list"
  TMTaskTag_table :: "TMTaskTag list"
  TMChecklistItem_table :: "TMChecklistItem list"

subsection \<open>The rows and entities of the JavaScript side\<close>

record RawTaskRow =
  uuid :: string
  title :: "string option"
  type :: int
  status :: int
  start :: "int option"
  "notes" :: "string option"
  startDate :: "int option"
  startBucket :: "int option"
  deadline :: "int option"
  creationDate :: "int option"
  userModificationDate :: "int option"
  stopDate :: "int option"
  project :: "string option"
  projectTitle :: "string option"
  area :: "string option"
  areaTitle :: "string option"
  reminderTime :: "int option"
  rt1_recurrenceRule :: js_raw
  rt1_nextInstanceStartDate :: "int option"
  rt1_instanceCreationPaused :: "int option"

record ChecklistItem =
  uuid :: string
  title :: string
  status :: status_label

record Todo =
  uuid :: string
  title :: string
  type :: type_label
  status :: status_label
  "notes" :: string
  start :: "start_label option"
  startDate :: "string option"
  deadline :: "string option"
  createdAt :: string
  modifiedAt :: string
  completedAt :: "string option"
  project :: "string option"
  projectTitle :: "string option"
  area :: "string option"
  areaTitle :: "string option"
  tags :: "string list"
  checklist :: "ChecklistItem list"
  reminderTime :: "string option"
  repeating :: bool
  recurrenceRule :: "string option"
  nextInstanceDate :: "string option"

record Project =
  uuid :: string
  title :: string
  status :: status_label
  "notes" :: string
  start :: "start_label option"
  startDate :: "string option"
  deadline :: "string option"
  createdAt :: string
  modifiedAt :: string
  completedAt :: "string option"
  area :: "string option"
  areaTitle :: "string option"
  tags :: "string list"
  todoCount :: nat
  todos :: "Todo list"

section \<open>Platform, exceptions and the module state\<close>

text \<open>
  The module reads the clock (\<open>Date.now()\<close>, milliseconds since the Unix epoch) and
  decodes bytes with \<open>TextDecoder\<close>; both belong to the runtime and are parameters.
  So is \<open>rounded_number_text m\<close>, the text JavaScript writes for the number nearest to
  an integer \<open>m\<close> of \<open>2 ^ 53\<close> or more (the number is rounded to a double, and its text
  is the shortest that reads back as that double, with an exponent from \<open>1e21\<close> on).
  The clock is taken to stand still during one call of the facade.  Numbers are
  mathematical integers: the model is exact while every number stays below \<open>2 ^ 53\<close>
  in magnitude, where a JavaScript number is an exact integer; a column that holds a
  fraction of a second is outside the model.

  The only module state is \<open>startDateEpochOffset\<close>, \<open>null\<close> until the first
  calibration.  A computation takes that state and returns an exception or a value,
  with the state it leaves behind.
\<close>

record platform =
  Date_now :: int
  TextDecoder_decode :: "8 word list \<Rightarrow> 16 word list"
  rounded_number_text :: "int \<Rightarrow> string"

datatype js_error = RangeError | TypeError

type_synonym 'a io = "int option \<Rightarrow> (js_error + 'a) \<times> int option"

definition io_return :: "'a \<Rightarrow> 'a io" where
  "io_return x = (\<lambda>s. (Inr x, s))"

definition io_lift :: "js_error + 'a \<Rightarrow> 'a io" where
  "io_lift r = (\<lambda>s. (r, s))"

definition io_bind :: "'a io \<Rightarrow> ('a \<Rightarrow> 'b io) \<Rightarrow> 'b io" where
  "io_bind m f = (\<lambda>s. case m s of (Inl e, s') \<Rightarrow> (Inl e, s') | (Inr x, s') \<Rightarrow> f x s')"

fun io_map :: "('a \<Rightarrow> 'b io) \<Rightarrow> 'a list \<Rightarrow> 'b list io" where
  "io_map f [] = io_return []"
| "io_map f (x # xs) =
     io_bind (f x) (\<lambda>y. io_bind (io_map f xs) (\<lambda>ys. io_return (y # ys)))"

section \<open>Dates\<close>

text \<open>
  \<open>new Date(ms).toISOString()\<close>: a time value beyond 8.64e15 milliseconds on either
  side of the epoch is an invalid date, for which \<open>toISOString\<close> throws a RangeError.
  The calendar date of a day number is computed in the proleptic Gregorian calendar;
  years outside 0..9999 are printed with a sign and six digits.
\<close>

fun string_of_nat :: "nat \<Rightarrow> string" where
  "string_of_nat n =
     (if n < 10 then [char_of (48 + n)]
      else string_of_nat (n div 10) @ [char_of (48 + n mod 10)])"

declare string_of_nat.simps [simp del]

definition pad_start :: "nat \<Rightarrow> string \<Rightarrow> string" where
  "pad_start w s = replicate (w - length s) CHR ''0'' @ s"

definition civil_from_days :: "int \<Rightarrow> int \<times> int \<times> int" where
  "civil_from_days z =
     (let z' = z + 719468;
          era = z' div 146097;
          doe = z' mod 146097;
          yoe = (doe - doe div 1460 + doe div 36524 - doe div 146096) div 365;
          y = yoe + era * 400;
          doy = doe - (365 * yoe + yoe div 4 - yoe div 100);
          mp = (5 * doy + 2) div 153;
          d = doy - (153 * mp + 2) div 5 + 1;
          m = (if mp < 10 then mp + 3 else mp - 9)
      in (if m \<le> 2 then y + 1 else y, m, d))"

definition iso_year :: "int \<Rightarrow> string" where
  "iso_year y =
     (if 0 \<le> y \<and> y \<le> 9999 then pad_start 4 (string_of_nat (nat y))
      else (if y < 0 then ''-'' else ''+'') @ pad_start 6 (string_of_nat (nat \<bar>y\<bar>)))"

definition two_digits :: "int \<Rightarrow> string" where
  "two_digits n = pad_start 2 (string_of_nat (nat n))"

definition toISOString :: "int \<Rightarrow> js_error + string" where
  "toISOString tv =
     (if tv < - 8640000000000000 \<or> 8640000000000000 < tv then Inl RangeError
      else
        (let day = tv div 86400000;
             msInDay = tv mod 86400000;
             ymd = civil_from_days day
         in Inr (iso_year (fst ymd) @ ''-'' @ two_digits (fst (snd ymd)) @ ''-''
                 @ two_digits (snd (snd ymd)) @ ''T''
                 @ two_digits (msInDay div 3600000) @ '':''
                 @ two_digits (msInDay div 60000 mod 60) @ '':''
                 @ two_digits (msInDay div 1000 mod 60) @ ''.''
                 @ pad_start 3 (string_of_nat (nat (msInDay mod 1000))) @ ''Z'')))"

definition unixToISO :: "int option \<Rightarrow> js_error + string option" where
  "unixToISO timestamp =
     (case timestamp of
        None \<Rightarrow> Inr None
      | Some ts \<Rightarrow> (case toISOString (ts * 1000) of Inl e \<Rightarrow> Inl e | Inr s \<Rightarrow> Inr (Some s)))"

text \<open>\<open>s.split("T")[0]\<close>: the part of the string before its first \<open>T\<close>.\<close>

definition split_T_0 :: "string \<Rightarrow> string" where
  "split_T_0 s = takeWhile (\<lambda>c. c \<noteq> CHR ''T'') s"

subsection \<open>Calibration of the start-date epoch\<close>

text \<open>
  The query of \<open>calibrateStartDateEpoch\<close>:
  \<^verbatim>\<open>SELECT startDate FROM TMTask
  WHERE start = 1 AND startDate IS NOT NULL AND status = 0 AND trashed = 0
  ORDER BY startDate DESC LIMIT 1\<close>
  SQLite sorts NULL below every number, as the order on options does.  The order of
  rows with equal keys is not fixed by SQL; the model sorts stably from the table order,
  and no theorem below depends on that choice.
\<close>

definition order_by_asc :: "('a \<Rightarrow> 'k::linorder) \<Rightarrow> 'a list \<Rightarrow> 'a list" where
  "order_by_asc k rows = sort_key k rows"

definition order_by_desc :: "('a \<Rightarrow> 'k::linorder) \<Rightarrow> 'a list \<Rightarrow> 'a list" where
  "order_by_desc k rows = rev (sort_key k (rev rows))"

definition sql_get :: "'a list \<Rightarrow> 'a option" where
  "sql_get rows = (case rows of [] \<Rightarrow> None | r # _ \<Rightarrow> Some r)"

definition where_calibration :: "TMTask \<Rightarrow> bool" where
  "where_calibration t \<longleftrightarrow>
     TMTask.start t = Some 1 \<and> TMTask.startDate t \<noteq> None
     \<and> TMTask.status t = 0 \<and> TMTask.trashed t = Some 0"

definition query_calibration :: "database \<Rightarrow> int option option" where
  "query_calibration db =
     sql_get (map TMTask.startDate
       (take 1 (order_by_desc TMTask.startDate (filter where_calibration (TMTask_table db)))))"

text \<open>
  In \<open>Math.floor(row.startDate / 86400)\<close> a \<open>null\<close> would count as 0; the query never
  returns one.
\<close>

definition calibrateStartDateEpoch :: "platform \<Rightarrow> database \<Rightarrow> int io" where
  "calibrateStartDateEpoch rt db = (\<lambda>startDateEpochOffset.
     case startDateEpochOffset of
       Some offset \<Rightarrow> (Inr offset, Some offset)
     | None \<Rightarrow>
         (case query_calibration db of
            Some row_startDate \<Rightarrow>
              (let todayMidnightUnix = (Date_now rt div 86400000) * 86400;
                   taskDay = (case row_startDate of Some v \<Rightarrow> v | None \<Rightarrow> 0) div 86400;
                   offset = todayMidnightUnix - taskDay * 86400
               in (Inr offset, Some offset))
          | None \<Rightarrow> (Inr 1637712000, Some 1637712000)))"

definition thingsScheduleDateToString :: "platform \<Rightarrow> database \<Rightarrow> int option \<Rightarrow> string option io" where
  "thingsScheduleDateToString rt db dateValue =
     (case dateValue of
        None \<Rightarrow> io_return None
      | Some v \<Rightarrow>
          io_bind (calibrateStartDateEpoch rt db) (\<lambda>offset.
            let unixTimestamp = v + offset
            in io_bind (io_lift (toISOString (unixTimestamp * 1000))) (\<lambda>iso.
                 io_return (Some (split_T_0 iso)))))"

section \<open>Recurrence rule\<close>

text \<open>
  \<open>parseRecurrenceRule\<close> searches the decoded text for the regular expression
  \<^verbatim>\<open><key>fu<\/key>\s*<integer>(\d+)<\/integer>\<close>.  Neither \<open>\s*\<close> nor \<open>\d+\<close> can give
  back a character, since what follows each starts with \<open><\<close>; so a match at a position
  is found by reading greedily, and \<open>match\<close> returns the leftmost position that matches.
\<close>

definition code_units :: "string \<Rightarrow> 16 word list" where
  "code_units s = map (\<lambda>c. of_nat (of_char c)) s"

definition is_js_space :: "16 word \<Rightarrow> bool" where
  "is_js_space c \<longleftrightarrow>
     c \<in> set [0x09, 0x0A, 0x0B, 0x0C, 0x0D, 0x20, 0xA0, 0x1680, 0x2028, 0x2029,
               0x202F, 0x205F, 0x3000, 0xFEFF]
     \<or> (0x2000 \<le> c \<and> c \<le> 0x200A)"

definition is_js_digit :: "16 word \<Rightarrow> bool" where
  "is_js_digit c \<longleftrightarrow> 0x30 \<le> c \<and> c \<le> 0x39"

fun strip_prefix :: "'a list \<Rightarrow> 'a list \<Rightarrow> 'a list option" where
  "strip_prefix [] s = Some s"
| "strip_prefix (p # ps) [] = None"
| "strip_prefix (p # ps) (c # cs) = (if p = c then strip_prefix ps cs else None)"

definition match_fu_at :: "16 word list \<Rightarrow> 16 word list option" where
  "match_fu_at s =
     (case strip_prefix (code_units ''<key>fu</key>'') s of
        None \<Rightarrow> None
      | Some s1 \<Rightarrow>
          (case strip_prefix (code_units ''<integer>'') (dropWhile is_js_space s1) of
             None \<Rightarrow> None
           | Some s2 \<Rightarrow>
               (let ds = takeWhile is_js_digit s2 in
                if ds = [] then None
                else (case strip_prefix (code_units ''</integer>'') (dropWhile is_js_digit s2) of
                        None \<Rightarrow> None
                      | Some _ \<Rightarrow> Some ds))))"

fun match_fu :: "16 word list \<Rightarrow> 16 word list option" where
  "match_fu [] = None"
| "match_fu (c # cs) =
     (case match_fu_at (c # cs) of Some ds \<Rightarrow> Some ds | None \<Rightarrow> match_fu cs)"

text \<open>
  \<open>parseInt(ds, 10)\<close> on a string of decimal digits returns the JavaScript number for
  the integer the digits denote.  Below \<open>2 ^ 53\<close> that number is the integer itself;
  from there on it is the nearest double, which the model does not compute: it keeps
  the integer the digits denote and marks the number as rounded.
\<close>

datatype js_number = Integer int | Rounded int

definition digits_value :: "16 word list \<Rightarrow> int" where
  "digits_value ds = foldl (\<lambda>acc c. 10 * acc + (uint c - 48)) 0 ds"

definition parseInt10 :: "16 word list \<Rightarrow> js_number" where
  "parseInt10 ds =
     (let m = digits_value ds in if m < 2 ^ 53 then Integer m else Rounded m)"

text \<open>
  The keys of \<open>FREQUENCY_UNIT_MAP\<close> are below \<open>2 ^ 53\<close>, and the double nearest to an
  integer of \<open>2 ^ 53\<close> or more is no less than \<open>2 ^ 53\<close>, so a rounded number has no
  entry.
\<close>

definition FREQUENCY_UNIT_MAP :: "js_number \<Rightarrow> string option" where
  "FREQUENCY_UNIT_MAP fu =
     (case fu of
        Integer n \<Rightarrow>
          (if n = 4 then Some ''daily''
           else if n = 256 then Some ''weekly''
           else if n = 16 then Some ''monthly''
           else if n = 2048 then Some ''yearly''
           else None)
      | Rounded m \<Rightarrow> None)"

text \<open>The text a template literal makes of the number, \<open>`${fu}`\<close>.\<close>

definition number_text :: "platform \<Rightarrow> js_number \<Rightarrow> string" where
  "number_text rt fu =
     (case fu of
        Integer n \<Rightarrow> string_of_nat (nat n)
      | Rounded m \<Rightarrow> rounded_number_text rt m)"

text \<open>
  \<open>new Uint8Array(values)\<close> converts each value to a number and wraps it modulo 256; a
  BigInt among the values raises a TypeError.
\<close>

fun to_uint8_list :: "js_element list \<Rightarrow> js_error + 8 word list" where
  "to_uint8_list [] = Inr []"
| "to_uint8_list (ElemBigInt n # rest) = Inl TypeError"
| "to_uint8_list (ElemNumber n # rest) =
     (case to_uint8_list rest of Inl e \<Rightarrow> Inl e | Inr bs \<Rightarrow> Inr (of_int n # bs))"

text \<open>The body of the \<open>try\<close> block: the decoded text, or \<open>None\<close> for the early \<open>return null\<close>.\<close>

definition recurrence_xmlString :: "platform \<Rightarrow> js_raw \<Rightarrow> js_error + 16 word list option" where
  "recurrence_xmlString rt raw =
     (case raw of
        RawUint8Array bytes \<Rightarrow> Inr (Some (TextDecoder_decode rt bytes))
      | RawObject vals \<Rightarrow>
          (case to_uint8_list vals of
             Inl e \<Rightarrow> Inl e
           | Inr bytes \<Rightarrow> Inr (Some (TextDecoder_decode rt bytes)))
      | RawString s \<Rightarrow> Inr (Some s)
      | _ \<Rightarrow> Inr None)"

definition recurrence_try_body :: "platform \<Rightarrow> js_raw \<Rightarrow> js_error + string option" where
  "recurrence_try_body rt raw =
     (case recurrence_xmlString rt raw of
        Inl e \<Rightarrow> Inl e
      | Inr None \<Rightarrow> Inr None
      | Inr (Some xmlString) \<Rightarrow>
          (case match_fu xmlString of
             Some ds \<Rightarrow>
               (let fu = parseInt10 ds in
                Inr (Some (case FREQUENCY_UNIT_MAP fu of
                             Some label \<Rightarrow> label
                           | None \<Rightarrow> ''every-'' @ number_text rt fu)))
           | None \<Rightarrow> Inr None))"

definition parseRecurrenceRule :: "platform \<Rightarrow> js_raw \<Rightarrow> js_error + string option" where
  "parseRecurrenceRule rt raw =
     (if raw = RawNull then Inr None
      else (case recurrence_try_body rt raw of
              Inl e \<Rightarrow> Inr None
            | Inr r \<Rightarrow> Inr r))"

text \<open>JavaScript truthiness of the column value, as the sort of the upcoming view tests it.\<close>

definition js_truthy :: "js_raw \<Rightarrow> bool" where
  "js_truthy raw =
     (case raw of
        RawNull \<Rightarrow> False
      | RawString s \<Rightarrow> s \<noteq> []
      | RawNumber n \<Rightarrow> n \<noteq> 0
      | _ \<Rightarrow> True)"

section \<open>Relation fetchers and the row decoder\<close>

text \<open>
  \<^verbatim>\<open>SELECT t.title FROM TMTag t JOIN TMTaskTag tt ON tt.tags = t.uuid WHERE tt.tasks = ?\<close>
  The query has no ORDER BY; SQLite walks the associations of the task and looks up the
  tag of each, so the titles come in the order of the association table.
\<close>

definition getTagsForTask :: "database \<Rightarrow> string \<Rightarrow> string list" where
  "getTagsForTask db taskUuid =
     [ TMTag.title t.
         tt \<leftarrow> TMTaskTag_table db,
         TMTaskTag.tasks tt = taskUuid,
         t \<leftarrow> TMTag_table db,
         TMTaskTag.tags tt = TMTag.uuid t ]"

text \<open>
  \<^verbatim>\<open>SELECT uuid, title, status FROM TMChecklistItem WHERE task = ? ORDER BY "index" ASC\<close>
\<close>

definition getChecklistForTask :: "database \<Rightarrow> string \<Rightarrow> ChecklistItem list" where
  "getChecklistForTask db taskUuid =
     map (\<lambda>r. \<lparr> ChecklistItem.uuid = TMChecklistItem.uuid r,
                 ChecklistItem.title = TMChecklistItem.title r,
                 ChecklistItem.status = statusToString (TMChecklistItem.status r) \<rparr>)
       (order_by_asc TMChecklistItem.index
          (filter (\<lambda>r. TMChecklistItem.task r = taskUuid) (TMChecklistItem_table db)))"

definition or_empty :: "string option \<Rightarrow> string" where
  "or_empty s = (case s of None \<Rightarrow> [] | Some v \<Rightarrow> v)"

definition rowToTodo :: "platform \<Rightarrow> database \<Rightarrow> RawTaskRow \<Rightarrow> Todo io" where
  "rowToTodo rt db row =
     (let isRecurring = (RawTaskRow.rt1_recurrenceRule row \<noteq> RawNull) in
      io_bind (thingsScheduleDateToString rt db (RawTaskRow.rt1_nextInstanceStartDate row))
        (\<lambda>nextInstanceDate.
      io_bind (if RawTaskRow.startDate row \<noteq> None
               then thingsScheduleDateToString rt db (RawTaskRow.startDate row)
               else io_return (if isRecurring then nextInstanceDate else None))
        (\<lambda>effectiveStartDate.
      io_bind (thingsScheduleDateToString rt db (RawTaskRow.deadline row)) (\<lambda>deadline_v.
      io_bind (io_lift (unixToISO (RawTaskRow.creationDate row))) (\<lambda>createdAt_v.
      io_bind (io_lift (unixToISO (RawTaskRow.userModificationDate row))) (\<lambda>modifiedAt_v.
      io_bind (io_lift (unixToISO (RawTaskRow.stopDate row))) (\<lambda>completedAt_v.
      io_bind (io_lift (unixToISO (RawTaskRow.reminderTime row))) (\<lambda>reminderTime_v.
      io_bind (io_lift (parseRecurrenceRule rt (RawTaskRow.rt1_recurrenceRule row)))
        (\<lambda>recurrenceRule_v.
      io_return
        \<lparr> Todo.uuid = RawTaskRow.uuid row,
          Todo.title = or_empty (RawTaskRow.title row),
          Todo.type = typeToString (RawTaskRow.type row),
          Todo.status = statusToString (RawTaskRow.status row),
          Todo.notes = or_empty (RawTaskRow.notes row),
          Todo.start = startToString (RawTaskRow.start row) (RawTaskRow.startBucket row)
                         (RawTaskRow.startDate row),
          Todo.startDate = effectiveStartDate,
          Todo.deadline = deadline_v,
          Todo.createdAt = or_empty createdAt_v,
          Todo.modifiedAt = or_empty modifiedAt_v,
          Todo.completedAt = completedAt_v,
          Todo.project = RawTaskRow.project row,
          Todo.projectTitle = RawTaskRow.projectTitle row,
          Todo.area = RawTaskRow.area row,
          Todo.areaTitle = RawTaskRow.areaTitle row,
          Todo.tags = getTagsForTask db (RawTaskRow.uuid row),
          Todo.checklist = getChecklistForTask db (RawTaskRow.uuid row),
          Todo.reminderTime = reminderTime_v,
          Todo.repeating = isRecurring,
          Todo.recurrenceRule = recurrenceRule_v,
          Todo.nextInstanceDate = nextInstanceDate \<rparr>)))))))))"

section \<open>The base query\<close>

text \<open>
  \<^verbatim>\<open>FROM TMTask t
  LEFT JOIN TMTask p ON t.project = p.uuid
  LEFT JOIN TMArea a ON COALESCE(t.area, p.area) = a.uuid\<close>
  A left join keeps a row without a partner, with NULL for the partner's columns.  The
  WHERE clause and the ORDER BY of every query read columns of \<open>t\<close> only.
\<close>

type_synonym joined_row = "TMTask \<times> TMTask option \<times> TMArea option"

definition left_join :: "('b \<Rightarrow> bool) \<Rightarrow> 'b list \<Rightarrow> 'b option list" where
  "left_join on tbl = (case filter on tbl of [] \<Rightarrow> [None] | ms \<Rightarrow> map Some ms)"

definition coalesce :: "'a option \<Rightarrow> 'a option \<Rightarrow> 'a option" where
  "coalesce a b = (case a of Some x \<Rightarrow> Some x | None \<Rightarrow> b)"

definition coalesce_area :: "TMTask \<Rightarrow> TMTask option \<Rightarrow> string option" where
  "coalesce_area t p =
     coalesce (TMTask.area t) (case p of None \<Rightarrow> None | Some p' \<Rightarrow> TMTask.area p')"

definition BASE_TASK_FROM :: "database \<Rightarrow> joined_row list" where
  "BASE_TASK_FROM db =
     [ (t, p, a).
         t \<leftarrow> TMTask_table db,
         p \<leftarrow> left_join (\<lambda>p. TMTask.project t = Some (TMTask.uuid p)) (TMTask_table db),
         a \<leftarrow> left_join (\<lambda>a. coalesce_area t p = Some (TMArea.uuid a)) (TMArea_table db) ]"

definition BASE_TASK_COLUMNS :: "joined_row \<Rightarrow> RawTaskRow" where
  "BASE_TASK_COLUMNS j =
     (case j of (t, p, a) \<Rightarrow>
        \<lparr> RawTaskRow.uuid = TMTask.uuid t,
          RawTaskRow.title = TMTask.title t,
          RawTaskRow.type = TMTask.type t,
          RawTaskRow.status = TMTask.status t,
          RawTaskRow.start = TMTask.start t,
          RawTaskRow.notes = TMTask.notes t,
          RawTaskRow.startDate = TMTask.startDate t,
          RawTaskRow.startBucket = TMTask.startBucket t,
          RawTaskRow.deadline = TMTask.deadline t,
          RawTaskRow.creationDate = TMTask.creationDate t,
          RawTaskRow.userModificationDate = TMTask.userModificationDate t,
          RawTaskRow.stopDate = TMTask.stopDate t,
          RawTaskRow.project = TMTask.project t,
          RawTaskRow.projectTitle = (case p of None \<Rightarrow> None | Some p' \<Rightarrow> TMTask.title p'),
          RawTaskRow.area = coalesce_area t p,
          RawTaskRow.areaTitle = (case a of None \<Rightarrow> None | Some a' \<Rightarrow> Some (TMArea.title a')),
          RawTaskRow.reminderTime = TMTask.reminderTime t,
          RawTaskRow.rt1_recurrenceRule = TMTask.rt1_recurrenceRule t,
          RawTaskRow.rt1_nextInstanceStartDate = TMTask.rt1_nextInstanceStartDate t,
          RawTaskRow.rt1_instanceCreationPaused = TMTask.rt1_instanceCreationPaused t \<rparr>)"

text \<open>A query of the base select: filter on \<open>t\<close>, then the columns.\<close>

definition base_where :: "database \<Rightarrow> (TMTask \<Rightarrow> bool) \<Rightarrow> joined_row list" where
  "base_where db cond = filter (\<lambda>j. cond (fst j)) (BASE_TASK_FROM db)"

section \<open>The queries of the list views\<close>

definition where_inbox :: "TMTask \<Rightarrow> bool" where
  "where_inbox t \<longleftrightarrow>
     TMTask.type t = TYPE_TODO \<and> TMTask.status t = STATUS_INCOMPLETE
     \<and> TMTask.trashed t = Some 0 \<and> TMTask.start t = Some 0
     \<and> TMTask.startDate t = None \<and> TMTask.startBucket t = Some 0
     \<and> TMTask.project t = None \<and> TMTask.heading t = None"

definition where_today :: "TMTask \<Rightarrow> bool" where
  "where_today t \<longleftrightarrow>
     TMTask.type t = TYPE_TODO \<and> TMTask.status t = STATUS_INCOMPLETE
     \<and> TMTask.trashed t = Some 0 \<and> TMTask.start t = Some 1
     \<and> TMTask.startDate t \<noteq> None"

text \<open>A comparison with a NULL column is not true in SQL, so the row is left out.\<close>

definition where_today_recurring :: "int \<Rightarrow> int \<Rightarrow> TMTask \<Rightarrow> bool" where
  "where_today_recurring todayStart todayEnd t \<longleftrightarrow>
     TMTask.type t = TYPE_TODO \<and> TMTask.status t = STATUS_INCOMPLETE
     \<and> TMTask.trashed t = Some 0
     \<and> TMTask.rt1_recurrenceRule t \<noteq> RawNull
     \<and> TMTask.rt1_instanceCreationPaused t = Some 0
     \<and> (case TMTask.rt1_nextInstanceStartDate t of
          None \<Rightarrow> False
        | Some n \<Rightarrow> todayStart \<le> n \<and> n < todayEnd)"

definition where_upcoming :: "TMTask \<Rightarrow> bool" where
  "where_upcoming t \<longleftrightarrow>
     TMTask.type t = TYPE_TODO \<and> TMTask.status t = STATUS_INCOMPLETE
     \<and> TMTask.trashed t = Some 0 \<and> TMTask.start t = Some 1
     \<and> TMTask.startDate t \<noteq> None \<and> TMTask.startBucket t = Some 0"

definition where_upcoming_recurring :: "int \<Rightarrow> TMTask \<Rightarrow> bool" where
  "where_upcoming_recurring todayThingsValue t \<longleftrightarrow>
     TMTask.type t = TYPE_TODO \<and> TMTask.status t = STATUS_INCOMPLETE
     \<and> TMTask.trashed t = Some 0
     \<and> TMTask.rt1_recurrenceRule t \<noteq> RawNull
     \<and> TMTask.rt1_instanceCreationPaused t = Some 0
     \<and> (case TMTask.rt1_nextInstanceStartDate t of
          None \<Rightarrow> False
        | Some n \<Rightarrow> todayThingsValue < n)"

definition where_anytime :: "TMTask \<Rightarrow> bool" where
  "where_anytime t \<longleftrightarrow>
     TMTask.type t = TYPE_TODO \<and> TMTask.status t = STATUS_INCOMPLETE
     \<and> TMTask.trashed t = Some 0 \<and> TMTask.start t = Some 1
     \<and> TMTask.startBucket t = Some START_BUCKET_ANYTIME"

definition where_someday :: "TMTask \<Rightarrow> bool" where
  "where_someday t \<longleftrightarrow>
     TMTask.type t = TYPE_TODO \<and> TMTask.status t = STATUS_INCOMPLETE
     \<and> TMTask.trashed t = Some 0 \<and> TMTask.start t = Some 2"

definition where_logbook :: "TMTask \<Rightarrow> bool" where
  "where_logbook t \<longleftrightarrow>
     TMTask.type t = TYPE_TODO
     \<and> (TMTask.status t = STATUS_COMPLETED \<or> TMTask.status t = STATUS_CANCELED)
     \<and> TMTask.trashed t = Some 0"

definition query_inbox :: "database \<Rightarrow> RawTaskRow list" where
  "query_inbox db = map BASE_TASK_COLUMNS (base_where db where_inbox)"

definition query_today :: "database \<Rightarrow> RawTaskRow list" where
  "query_today db =
     map BASE_TASK_COLUMNS
       (order_by_asc (\<lambda>j. TMTask.todayIndex (fst j)) (base_where db where_today))"

definition query_today_recurring :: "database \<Rightarrow> int \<Rightarrow> int \<Rightarrow> RawTaskRow list" where
  "query_today_recurring db todayStart todayEnd =
     map BASE_TASK_COLUMNS
       (order_by_asc (\<lambda>j. TMTask.rt1_nextInstanceStartDate (fst j))
          (base_where db (where_today_recurring todayStart todayEnd)))"

definition query_upcoming :: "database \<Rightarrow> RawTaskRow list" where
  "query_upcoming db =
     map BASE_TASK_COLUMNS
       (order_by_asc (\<lambda>j. TMTask.startDate (fst j)) (base_where db where_upcoming))"

definition query_upcoming_recurring :: "database \<Rightarrow> int \<Rightarrow> RawTaskRow list" where
  "query_upcoming_recurring db todayThingsValue =
     map BASE_TASK_COLUMNS
       (order_by_asc (\<lambda>j. TMTask.rt1_nextInstanceStartDate (fst j))
          (base_where db (where_upcoming_recurring todayThingsValue)))"

definition query_anytime :: "database \<Rightarrow> RawTaskRow list" where
  "query_anytime db =
     map BASE_TASK_COLUMNS
       (order_by_asc (\<lambda>j. TMTask.todayIndex (fst j)) (base_where db where_anytime))"

definition query_someday :: "database \<Rightarrow> RawTaskRow list" where
  "query_someday db =
     map BASE_TASK_COLUMNS
       (order_by_desc (\<lambda>j. TMTask.creationDate (fst j)) (base_where db where_someday))"

definition query_logbook :: "database \<Rightarrow> RawTaskRow list" where
  "query_logbook db =
     map BASE_TASK_COLUMNS
       (take 50 (order_by_desc (\<lambda>j. TMTask.stopDate (fst j)) (base_where db where_logbook)))"

subsection \<open>The merge of the upcoming view\<close>

text \<open>
  The loop over \<open>[...regularRows, ...recurringRows]\<close> with the set \<open>seenUuids\<close> and the
  array \<open>allRows\<close>.
\<close>

fun merge_dedup :: "string set \<Rightarrow> RawTaskRow list \<Rightarrow> RawTaskRow list \<Rightarrow> RawTaskRow list" where
  "merge_dedup seenUuids allRows [] = allRows"
| "merge_dedup seenUuids allRows (row # rest) =
     (if RawTaskRow.uuid row \<notin> seenUuids
      then merge_dedup (insert (RawTaskRow.uuid row) seenUuids) (allRows @ [row]) rest
      else merge_dedup seenUuids allRows rest)"

text \<open>
  The comparator's \<open>dateA\<close>: a number or \<open>Infinity\<close>.  The pair \<open>(False, d)\<close> stands for the
  number \<open>d\<close> and \<open>(True, 0)\<close> for \<open>Infinity\<close>, so that the lexicographic order of pairs
  is the order of the values.  \<open>dateA - dateB\<close> is negative, zero or positive as
  \<open>dateA\<close> is below, equal to or above \<open>dateB\<close> (\<open>Infinity - Infinity\<close> is NaN, which
  \<open>sort\<close> takes as zero), and \<open>Array.prototype.sort\<close> is stable.
\<close>

definition or_Infinity :: "int option \<Rightarrow> bool \<times> int" where
  "or_Infinity v = (case v of Some d \<Rightarrow> (False, d) | None \<Rightarrow> (True, 0))"

definition sort_date :: "RawTaskRow \<Rightarrow> bool \<times> int" where
  "sort_date a =
     (if js_truthy (RawTaskRow.rt1_recurrenceRule a)
      then or_Infinity (RawTaskRow.rt1_nextInstanceStartDate a)
      else or_Infinity (RawTaskRow.startDate a))"

section \<open>The read facade\<close>

definition getTodosByList :: "platform \<Rightarrow> database \<Rightarrow> string \<Rightarrow> Todo list io" where
  "getTodosByList rt db list =
     (if list = ''inbox'' then io_map (rowToTodo rt db) (query_inbox db)
      else if list = ''today'' then
        io_bind (calibrateStartDateEpoch rt db) (\<lambda>offset.
          let todayMidnightUnix = (Date_now rt div 86400000) * 86400;
              todayThingsValue = todayMidnightUnix - offset;
              todayStart = todayThingsValue - 86400;
              todayEnd = todayThingsValue + 86400;
              todayRows = query_today db;
              recurringTodayRows = query_today_recurring db todayStart todayEnd;
              seenUuids = set (map RawTaskRow.uuid todayRows);
              combined = todayRows
                 @ filter (\<lambda>r. RawTaskRow.uuid r \<notin> seenUuids) recurringTodayRows
          in io_map (rowToTodo rt db) combined)
      else if list = ''upcoming'' then
        io_bind (calibrateStartDateEpoch rt db) (\<lambda>offset.
          let todayMidnightUnix = (Date_now rt div 86400000) * 86400;
              todayThingsValue = todayMidnightUnix - offset;
              regularRows = query_upcoming db;
              recurringRows = query_upcoming_recurring db todayThingsValue;
              allRows = merge_dedup {} [] (regularRows @ recurringRows)
          in io_map (rowToTodo rt db) (sort_key sort_date allRows))
      else if list = ''anytime'' then io_map (rowToTodo rt db) (query_anytime db)
      else if list = ''someday'' then io_map (rowToTodo rt db) (query_someday db)
      else if list = ''logbook'' then io_map (rowToTodo rt db) (query_logbook db)
      else io_map (rowToTodo rt db) [])"

text \<open>
  \<^verbatim>\<open>WHERE t.uuid = ? AND t.type = 0\<close>, and \<open>.get\<close> takes the first row.
\<close>

definition getTodoByUuid :: "platform \<Rightarrow> database \<Rightarrow> string \<Rightarrow> Todo option io" where
  "getTodoByUuid rt db u =
     (case sql_get (map BASE_TASK_COLUMNS
                      (base_where db (\<lambda>t. TMTask.uuid t = u \<and> TMTask.type t = TYPE_TODO))) of
        None \<Rightarrow> io_return None
      | Some row \<Rightarrow> io_bind (rowToTodo rt db row) (\<lambda>todo. io_return (Some todo)))"

subsection \<open>Search\<close>

text \<open>
  The LIKE operator of SQLite: \<open>%\<close> matches any run of characters, \<open>_\<close> any one character,
  and letters of the ASCII range match without regard to case.  A \<open>char\<close> is a byte, so
  the model is exact on ASCII text.  LIKE on a NULL column is not true.
\<close>

definition ascii_lower :: "char \<Rightarrow> char" where
  "ascii_lower c =
     (let n = (of_char c :: nat) in if 65 \<le> n \<and> n \<le> 90 then char_of (n + 32) else c)"

fun sql_like :: "string \<Rightarrow> string \<Rightarrow> bool" where
  "sql_like [] s = (s = [])"
| "sql_like (p # ps) [] = (p = CHR ''%'' \<and> sql_like ps [])"
| "sql_like (p # ps) (c # cs) =
     (if p = CHR ''%'' then sql_like ps (c # cs) \<or> sql_like (p # ps) cs
      else (p = CHR ''_'' \<or> ascii_lower p = ascii_lower c) \<and> sql_like ps cs)"

definition like_column :: "string \<Rightarrow> string option \<Rightarrow> bool" where
  "like_column pattern col = (case col of None \<Rightarrow> False | Some s \<Rightarrow> sql_like pattern s)"

definition where_search :: "string \<Rightarrow> TMTask \<Rightarrow> bool" where
  "where_search pattern t \<longleftrightarrow>
     TMTask.type t = TYPE_TODO \<and> TMTask.trashed t = Some 0
     \<and> (like_column pattern (TMTask.title t) \<or> like_column pattern (TMTask.notes t))"

definition query_search :: "database \<Rightarrow> string \<Rightarrow> RawTaskRow list" where
  "query_search db pattern =
     map BASE_TASK_COLUMNS
       (take 50 (order_by_desc (\<lambda>j. TMTask.userModificationDate (fst j))
                   (base_where db (where_search pattern))))"

definition searchTodos :: "platform \<Rightarrow> database \<Rightarrow> string \<Rightarrow> Todo list io" where
  "searchTodos rt db query =
     (let pattern = ''%'' @ query @ ''%''
      in io_map (rowToTodo rt db) (query_search db pattern))"

subsection \<open>By tag and by project\<close>

text \<open>
  \<^verbatim>\<open>JOIN TMTaskTag tt ON tt.tasks = t.uuid JOIN TMTag tag ON tt.tags = tag.uuid
  WHERE tag.title = ? AND t.type = 0 AND t.trashed = 0 AND t.status = 0
  ORDER BY t.userModificationDate DESC\<close>
\<close>

definition where_tag :: "TMTask \<Rightarrow> bool" where
  "where_tag t \<longleftrightarrow>
     TMTask.type t = TYPE_TODO \<and> TMTask.trashed t = Some 0
     \<and> TMTask.status t = STATUS_INCOMPLETE"

definition query_tag :: "database \<Rightarrow> string \<Rightarrow> RawTaskRow list" where
  "query_tag db tagName =
     map BASE_TASK_COLUMNS
       (order_by_desc (\<lambda>j. TMTask.userModificationDate (fst j))
          [ j. j \<leftarrow> BASE_TASK_FROM db,
               tt \<leftarrow> TMTaskTag_table db,
               TMTaskTag.tasks tt = TMTask.uuid (fst j),
               tag \<leftarrow> TMTag_table db,
               TMTaskTag.tags tt = TMTag.uuid tag,
               TMTag.title tag = tagName \<and> where_tag (fst j) ])"

definition getTodosByTag :: "platform \<Rightarrow> database \<Rightarrow> string \<Rightarrow> Todo list io" where
  "getTodosByTag rt db tagName = io_map (rowToTodo rt db) (query_tag db tagName)"

text \<open>
  The project row of \<open>getProjectByUuid\<close>:
  \<^verbatim>\<open>FROM TMTask t LEFT JOIN TMArea a ON t.area = a.uuid WHERE t.uuid = ? AND t.type = 1\<close>
  with the count of its to-dos that are not trashed, and the to-dos themselves:
  \<^verbatim>\<open>WHERE t.project = ? AND t.type = 0 AND t.trashed = 0 ORDER BY t."index" ASC\<close>
\<close>

definition query_project_row :: "database \<Rightarrow> string \<Rightarrow> (TMTask \<times> TMArea option \<times> nat) option" where
  "query_project_row db u =
     sql_get
       [ (t, a, length (filter (\<lambda>sub. TMTask.project sub = Some (TMTask.uuid t)
                                       \<and> TMTask.type sub = TYPE_TODO
                                       \<and> TMTask.trashed sub = Some 0) (TMTask_table db))).
           t \<leftarrow> TMTask_table db,
           a \<leftarrow> left_join (\<lambda>a. TMTask.area t = Some (TMArea.uuid a)) (TMArea_table db),
           TMTask.uuid t = u \<and> TMTask.type t = TYPE_PROJECT ]"

definition query_project_todos :: "database \<Rightarrow> string \<Rightarrow> RawTaskRow list" where
  "query_project_todos db u =
     map BASE_TASK_COLUMNS
       (order_by_asc (\<lambda>j. TMTask.index (fst j))
          (base_where db (\<lambda>t. TMTask.project t = Some u \<and> TMTask.type t = TYPE_TODO
                              \<and> TMTask.trashed t = Some 0)))"

definition getProjectByUuid :: "platform \<Rightarrow> database \<Rightarrow> string \<Rightarrow> Project option io" where
  "getProjectByUuid rt db u =
     (case query_project_row db u of
        None \<Rightarrow> io_return None
      | Some (row, a, row_todoCount) \<Rightarrow>
          (let todoRows = query_project_todos db u in
           io_bind (thingsScheduleDateToString rt db (TMTask.startDate row)) (\<lambda>startDate_v.
           io_bind (thingsScheduleDateToString rt db (TMTask.deadline row)) (\<lambda>deadline_v.
           io_bind (io_lift (unixToISO (TMTask.creationDate row))) (\<lambda>createdAt_v.
           io_bind (io_lift (unixToISO (TMTask.userModificationDate row))) (\<lambda>modifiedAt_v.
           io_bind (io_lift (unixToISO (TMTask.stopDate row))) (\<lambda>completedAt_v.
           io_bind (io_map (rowToTodo rt db) todoRows) (\<lambda>todos_v.
           io_return (Some
             \<lparr> Project.uuid = TMTask.uuid row,
               Project.title = or_empty (TMTask.title row),
               Project.status = statusToString (TMTask.status row),
               Project.notes = or_empty (TMTask.notes row),
               Project.start = startToString (TMTask.start row) (TMTask.startBucket row)
                                 (TMTask.startDate row),
               Project.startDate = startDate_v,
               Project.deadline = deadline_v,
               Project.createdAt = or_empty createdAt_v,
               Project.modifiedAt = or_empty modifiedAt_v,
               Project.completedAt = completedAt_v,
               Project.area = TMTask.area row,
               Project.areaTitle = (case a of None \<Rightarrow> None | Some a' \<Rightarrow> Some (TMArea.title a')),
               Project.tags = getTagsForTask db (TMTask.uuid row),
               Project.todoCount = row_todoCount,
               Project.todos = todos_v \<rparr>)))))))))"

section \<open>Notions used to state the properties\<close>

text \<open>
  The offset a computation works with: the memoized one, or the one the first
  calibration computes.  \<open>decodedDate\<close> is the conversion of the calibrated date
  family of the specification, \<open>toCalendarDate(raw + offset)\<close>, and \<open>decoded_form\<close> the
  entity a row decodes to under a given offset.
\<close>

definition calibrated_offset :: "platform \<Rightarrow> database \<Rightarrow> int option \<Rightarrow> int" where
  "calibrated_offset rt db s =
     (case fst (calibrateStartDateEpoch rt db s) of Inr offset \<Rightarrow> offset | Inl e \<Rightarrow> 0)"

definition decodedDate :: "int \<Rightarrow> int option \<Rightarrow> js_error + string option" where
  "decodedDate offset raw =
     (case raw of
        None \<Rightarrow> Inr None
      | Some v \<Rightarrow> (case toISOString ((v + offset) * 1000) of
                    Inl e \<Rightarrow> Inl e
                  | Inr text \<Rightarrow> Inr (Some (split_T_0 text))))"

definition decoded_form :: "platform \<Rightarrow> database \<Rightarrow> int \<Rightarrow> RawTaskRow \<Rightarrow> js_error + Todo" where
  "decoded_form rt db offset row = fst (rowToTodo rt db row (Some offset))"

definition decodes :: "platform \<Rightarrow> database \<Rightarrow> int \<Rightarrow> RawTaskRow \<Rightarrow> bool" where
  "decodes rt db offset row =
     (case decoded_form rt db offset row of Inr todo \<Rightarrow> True | Inl e \<Rightarrow> False)"

text \<open>Today's midnight in the encoding of the store, as both merged views compute it.\<close>

definition today_things_value :: "platform \<Rightarrow> int \<Rightarrow> int" where
  "today_things_value rt offset = (Date_now rt div 86400000) * 86400 - offset"


text \<open>
  The code extracted from a recurrence rule, when the field is found, and its label:
  the four known codes have their names, and any other code \<open>n\<close> is labelled \<open>every-n\<close>,
  with \<open>n\<close> in decimal digits when it is below \<open>2 ^ 53\<close> and as JavaScript writes the
  rounded number otherwise.
\<close>

definition extracted_code :: "platform \<Rightarrow> js_raw \<Rightarrow> js_number option" where
  "extracted_code rt raw =
     (case recurrence_xmlString rt raw of
        Inr (Some xmlString) \<Rightarrow> map_option parseInt10 (match_fu xmlString)
      | _ \<Rightarrow> None)"

definition frequency_label :: "platform \<Rightarrow> js_number \<Rightarrow> string" where
  "frequency_label rt code =
     (case code of
        Integer n \<Rightarrow>
          (if n = 4 then ''daily'' else if n = 256 then ''weekly''
           else if n = 16 then ''monthly'' else if n = 2048 then ''yearly''
           else ''every-'' @ string_of_nat (nat n))
      | Rounded m \<Rightarrow> ''every-'' @ rounded_number_text rt m)"

text \<open>Whether a text contains another as a contiguous part, letters compared without case.\<close>

fun contains_text :: "string \<Rightarrow> string \<Rightarrow> bool" where
  "contains_text q [] = (q = [])"
| "contains_text q (c # cs) = (strip_prefix q (c # cs) \<noteq> None \<or> contains_text q cs)"

definition contains_ci :: "string \<Rightarrow> string \<Rightarrow> bool" where
  "contains_ci q s = contains_text (map ascii_lower q) (map ascii_lower s)"

text \<open>What a call returned: the list, and the identifiers in it.\<close>

definition returned :: "(js_error + 'a) \<times> int option \<Rightarrow> 'a option" where
  "returned r = (case fst r of Inr v \<Rightarrow> Some v | Inl e \<Rightarrow> None)"

definition returned_uuids :: "(js_error + Todo list) \<times> int option \<Rightarrow> string list option" where
  "returned_uuids r = map_option (map Todo.uuid) (returned r)"

text \<open>
  A computation that touches the module state only by calibrating: it leaves the state as
  it was or calibrated, and its outcome is the one it has on the calibrated state.
\<close>

definition offset_stable :: "platform \<Rightarrow> database \<Rightarrow> 'a io \<Rightarrow> bool" where
  "offset_stable rt db m \<longleftrightarrow>
     (\<forall>s. (snd (m s) = s \<or> snd (m s) = Some (calibrated_offset rt db s))
          \<and> fst (m s) = fst (m (Some (calibrated_offset rt db s))))"


text \<open>
  The time values a JavaScript \<open>Date\<close> can hold, and the rows whose dates all fall in that
  range once converted: the rows \<open>rowToTodo\<close> decodes without a RangeError.
\<close>

definition in_Date_range :: "int \<Rightarrow> bool" where
  "in_Date_range ms \<longleftrightarrow> - 8640000000000000 \<le> ms \<and> ms \<le> 8640000000000000"

definition date_in_range :: "int \<Rightarrow> int option \<Rightarrow> bool" where
  "date_in_range offset v =
     (case v of None \<Rightarrow> True | Some d \<Rightarrow> in_Date_range ((d + offset) * 1000))"

definition timestamp_in_range :: "int option \<Rightarrow> bool" where
  "timestamp_in_range v = (case v of None \<Rightarrow> True | Some t \<Rightarrow> in_Date_range (t * 1000))"

definition dates_in_range :: "int \<Rightarrow> RawTaskRow \<Rightarrow> bool" where
  "dates_in_range offset row \<longleftrightarrow>
     date_in_range offset (RawTaskRow.rt1_nextInstanceStartDate row)
     \<and> date_in_range offset (RawTaskRow.startDate row)
     \<and> date_in_range offset (RawTaskRow.deadline row)
     \<and> timestamp_in_range (RawTaskRow.creationDate row)
     \<and> timestamp_in_range (RawTaskRow.userModificationDate row)
     \<and> timestamp_in_range (RawTaskRow.stopDate row)
     \<and> timestamp_in_range (RawTaskRow.reminderTime row)"

text \<open>
  The rows the two merged views decode, for a calibrated offset: the concrete rows
  followed by the templates of the window that no concrete row shadows (today), and the
  merged, deduplicated and sorted rows (upcoming).
\<close>

definition today_templates :: "platform \<Rightarrow> database \<Rightarrow> int \<Rightarrow> RawTaskRow list" where
  "today_templates rt db offset =
     query_today_recurring db (today_things_value rt offset - 86400)
       (today_things_value rt offset + 86400)"

definition today_rows :: "platform \<Rightarrow> database \<Rightarrow> int \<Rightarrow> RawTaskRow list" where
  "today_rows rt db offset =
     query_today db
     @ filter (\<lambda>r. RawTaskRow.uuid r \<notin> set (map RawTaskRow.uuid (query_today db)))
         (today_templates rt db offset)"

definition upcoming_templates :: "platform \<Rightarrow> database \<Rightarrow> int \<Rightarrow> RawTaskRow list" where
  "upcoming_templates rt db offset =
     query_upcoming_recurring db (today_things_value rt offset)"

definition upcoming_rows :: "platform \<Rightarrow> database \<Rightarrow> int \<Rightarrow> RawTaskRow list" where
  "upcoming_rows rt db offset =
     sort_key sort_date
       (merge_dedup {} [] (query_upcoming db @ upcoming_templates rt db offset))"

section \<open>Example stores\<close>

text \<open>
  Small stores on which the theorems below are instantiated: a task with every optional
  column empty, and variations of it.
\<close>

definition blank_task :: "string \<Rightarrow> TMTask" where
  "blank_task u =
     \<lparr> TMTask.uuid = u, TMTask.title = Some u, TMTask.type = 0, TMTask.status = 0,
       TMTask.start = Some 0, TMTask.notes = None, TMTask.startDate = None,
       TMTask.startBucket = Some 0, TMTask.deadline = None, TMTask.creationDate = Some 0,
       TMTask.userModificationDate = Some 0, TMTask.stopDate = None,
       TMTask.project = None, TMTask.area = None, TMTask.reminderTime = None,
       TMTask.rt1_recurrenceRule = RawNull, TMTask.rt1_nextInstanceStartDate = None,
       TMTask.rt1_instanceCreationPaused = None, TMTask.trashed = Some 0,
       TMTask.heading = None, TMTask.todayIndex = Some 0, TMTask.index = Some 0 \<rparr>"

definition tasks_only :: "TMTask list \<Rightarrow> database" where
  "tasks_only ts =
     \<lparr> TMTask_table = ts, TMArea_table = [], TMTag_table = [], TMTaskTag_table = [],
       TMChecklistItem_table = [] \<rparr>"

text \<open>
  The platform of the examples: a clock, a decoder that takes each byte for one code
  unit (as \<open>TextDecoder\<close> does on ASCII bytes; the examples hold no others), and a
  stand-in for the text of rounded numbers (no example has a code of \<open>2 ^ 53\<close> or more).
\<close>

definition clock :: "int \<Rightarrow> platform" where
  "clock ms =
     \<lparr> Date_now = ms,
       TextDecoder_decode = map (\<lambda>b. of_nat (unat b)),
       rounded_number_text = (\<lambda>m. ''rounded'') \<rparr>"

definition scheduled_task :: "string \<Rightarrow> int \<Rightarrow> TMTask" where
  "scheduled_task u d = (blank_task u)\<lparr> TMTask.start := Some 1, TMTask.startDate := Some d \<rparr>"

definition example_clock :: platform where
  "example_clock = clock 1700000000000"

definition store_empty :: database where
  "store_empty = tasks_only []"


text \<open>A weekly recurring template, and the row the base query makes of a lone task.\<close>

definition weekly_rule :: js_raw where
  "weekly_rule = RawString (code_units ''<dict><key>fu</key> <integer>256</integer></dict>'')"

definition template_task :: "string \<Rightarrow> int \<Rightarrow> TMTask" where
  "template_task u n =
     (blank_task u)\<lparr> TMTask.start := Some 1,
                     TMTask.rt1_recurrenceRule := weekly_rule,
                     TMTask.rt1_nextInstanceStartDate := Some n,
                     TMTask.rt1_instanceCreationPaused := Some 0 \<rparr>"

definition row_of :: "TMTask \<Rightarrow> RawTaskRow" where
  "row_of t = BASE_TASK_COLUMNS (t, None, None)"


text \<open>Sixty completed to-dos, completed and modified at the seconds 0 to 59.\<close>

definition completed_task :: "nat \<Rightarrow> TMTask" where
  "completed_task i =
     (blank_task (''t'' @ string_of_nat i))\<lparr> TMTask.status := 3,
        TMTask.stopDate := Some (int i), TMTask.userModificationDate := Some (int i) \<rparr>"

definition store_sixty_completed :: database where
  "store_sixty_completed = tasks_only (map completed_task [0..<60])"

text \<open>
  A scheduled to-do that is also an active template, and two stores around it.  With
  the example clock and a scheduled start date of 172800, calibration makes 172800
  today's value.  In the first store the templates \<open>W\<close>, \<open>Y\<close> and \<open>Z\<close> fall on the day
  before, on the day and on the day after; in the second, \<open>P\<close> is a concrete to-do
  dated the day before, \<open>X\<close>'s next occurrence comes two days later, \<open>Y\<close>'s one day
  later and \<open>V\<close>'s is today.
\<close>

definition scheduled_template :: "string \<Rightarrow> int \<Rightarrow> int \<Rightarrow> TMTask" where
  "scheduled_template u d n =
     (scheduled_task u d)\<lparr> TMTask.rt1_recurrenceRule := weekly_rule,
                           TMTask.rt1_nextInstanceStartDate := Some n,
                           TMTask.rt1_instanceCreationPaused := Some 0 \<rparr>"

definition store_today :: database where
  "store_today =
     tasks_only [scheduled_template ''X'' 172800 172800, template_task ''Y'' 172800,
                 template_task ''W'' 86400, template_task ''Z'' 259200]"

definition store_upcoming :: database where
  "store_upcoming =
     tasks_only [scheduled_template ''X'' 172800 345600, scheduled_task ''P'' 86400,
                 template_task ''Y'' 259200, template_task ''V'' 172800]"

text \<open>A trashed to-do and a trashed project; two to-dos to search among.\<close>

definition store_trashed :: database where
  "store_trashed =
     tasks_only [(blank_task ''T'')\<lparr> TMTask.trashed := Some 1 \<rparr>,
                 (blank_task ''J'')\<lparr> TMTask.type := 1, TMTask.trashed := Some 1 \<rparr>]"

text \<open>
  A store whose one completed to-do was stopped beyond the range of a JavaScript date
  (9000000000000 seconds are more than 8640000000000000 milliseconds), beside an open
  to-do.
\<close>

definition store_late_stop :: database where
  "store_late_stop =
     tasks_only [(blank_task ''late'')\<lparr> TMTask.status := 3,
                    TMTask.stopDate := Some 9000000000000 \<rparr>,
                 (blank_task ''good'')\<lparr> TMTask.userModificationDate := Some 5 \<rparr>]"

definition store_search :: database where
  "store_search =
     tasks_only [(blank_task ''abc'')\<lparr> TMTask.userModificationDate := Some 2 \<rparr>,
                 (blank_task ''a-b-c'')\<lparr> TMTask.userModificationDate := Some 1 \<rparr>]"

section \<open>Calibration and the module state\<close>

lemma calibrate_result:
  "calibrateStartDateEpoch rt db s
     = (Inr (calibrated_offset rt db s), Some (calibrated_offset rt db s))"
  by (simp add: calibrated_offset_def calibrateStartDateEpoch_def Let_def
           split: option.splits)

lemma calibrated_offset_Some [simp]: "calibrated_offset rt db (Some c) = c"
  by (simp add: calibrated_offset_def calibrateStartDateEpoch_def)

subsection \<open>Computations that only calibrate\<close>

lemma offset_stable_return: "offset_stable rt db (io_return x)"
  by (simp add: offset_stable_def io_return_def)

lemma offset_stable_lift: "offset_stable rt db (io_lift r)"
  by (simp add: offset_stable_def io_lift_def)

lemma offset_stable_calibrate: "offset_stable rt db (calibrateStartDateEpoch rt db)"
  by (simp add: offset_stable_def calibrate_result)

lemma offset_stable_at_Some:
  assumes "offset_stable rt db m"
  shows "snd (m (Some c)) = Some c"
  using assms by (auto simp: offset_stable_def dest: spec [of _ "Some c"])

lemma offset_stable_bind:
  assumes m: "offset_stable rt db m" and f: "\<And>x. offset_stable rt db (f x)"
  shows "offset_stable rt db (io_bind m f)"
  unfolding offset_stable_def
proof (intro allI)
  fix s
  let ?c = "calibrated_offset rt db s"
  obtain r s1 where ms: "m s = (r, s1)" by (cases "m s")
  have s1: "s1 = s \<or> s1 = Some ?c"
    using m ms by (auto simp: offset_stable_def dest: spec [of _ s])
  have c1: "calibrated_offset rt db s1 = ?c" using s1 by auto
  have mc: "m (Some ?c) = (r, Some ?c)"
  proof -
    have "fst (m (Some ?c)) = r"
      using m ms by (auto simp: offset_stable_def dest: spec [of _ s])
    moreover have "snd (m (Some ?c)) = Some ?c" by (rule offset_stable_at_Some [OF m])
    ultimately show ?thesis by (cases "m (Some ?c)") simp
  qed
  show "(snd (io_bind m f s) = s \<or> snd (io_bind m f s) = Some ?c)
        \<and> fst (io_bind m f s) = fst (io_bind m f (Some ?c))"
  proof (cases r)
    case (Inl e)
    then show ?thesis using ms mc s1 by (simp add: io_bind_def)
  next
    case (Inr x)
    have "(snd (f x s1) = s1 \<or> snd (f x s1) = Some (calibrated_offset rt db s1))
              \<and> fst (f x s1) = fst (f x (Some (calibrated_offset rt db s1)))"
      using f [of x] unfolding offset_stable_def by blast
    then have fx: "(snd (f x s1) = s1 \<or> snd (f x s1) = Some ?c)
              \<and> fst (f x s1) = fst (f x (Some ?c))"
      unfolding c1 .
    show ?thesis using Inr ms mc s1 fx by (auto simp: io_bind_def)
  qed
qed

lemma offset_stable_map:
  assumes "\<And>x. offset_stable rt db (f x)"
  shows "offset_stable rt db (io_map f xs)"
  by (induction xs) (auto intro!: offset_stable_return offset_stable_bind assms)

lemma offset_stable_tsd: "offset_stable rt db (thingsScheduleDateToString rt db v)"
  by (cases v)
     (auto simp: thingsScheduleDateToString_def Let_def
           intro!: offset_stable_return offset_stable_bind offset_stable_calibrate
                   offset_stable_lift)

lemma offset_stable_rowToTodo: "offset_stable rt db (rowToTodo rt db row)"
  unfolding rowToTodo_def Let_def
  by (intro offset_stable_bind offset_stable_tsd offset_stable_lift offset_stable_return)
     (auto intro!: offset_stable_tsd offset_stable_return)

subsection \<open>The recurrence rule parser as a total function\<close>

lemma parse_body_cases:
  "recurrence_try_body rt raw = Inl e \<Longrightarrow> extracted_code rt raw = None"
  "recurrence_try_body rt raw = Inr r \<Longrightarrow>
     r = map_option (frequency_label rt) (extracted_code rt raw)"
  by (auto simp: recurrence_try_body_def extracted_code_def frequency_label_def
                 FREQUENCY_UNIT_MAP_def number_text_def Let_def
           split: sum.splits option.splits js_number.splits if_splits)

lemma extracted_code_RawNull: "extracted_code rt RawNull = None"
  by (simp add: extracted_code_def recurrence_xmlString_def)

lemma parseRecurrenceRule_eq:
  "parseRecurrenceRule rt raw = Inr (map_option (frequency_label rt) (extracted_code rt raw))"
proof (cases "recurrence_try_body rt raw")
  case (Inl e)
  then show ?thesis
    using parse_body_cases(1) [OF Inl]
    by (simp add: parseRecurrenceRule_def extracted_code_RawNull)
next
  case (Inr r)
  then show ?thesis
    using parse_body_cases(2) [OF Inr]
    by (auto simp: parseRecurrenceRule_def extracted_code_RawNull)
qed

subsection \<open>The row decoder on a calibrated state\<close>

lemma io_bind_Inr_elim:
  assumes "io_bind m f s = (Inr y, s2)"
  obtains x s1 where "m s = (Inr x, s1)" and "f x s1 = (Inr y, s2)"
  using assms by (auto simp: io_bind_def split: prod.splits sum.splits)

lemma io_lift_Inr_iff [simp]: "io_lift r s = (Inr x, s1) \<longleftrightarrow> r = Inr x \<and> s1 = s"
  by (auto simp: io_lift_def)

lemma io_return_iff [simp]: "io_return v s = (Inr x, s1) \<longleftrightarrow> x = v \<and> s1 = s"
  by (auto simp: io_return_def)

lemma tsd_calibrated:
  "thingsScheduleDateToString rt db v (Some c) = (decodedDate c v, Some c)"
  by (cases v)
     (auto simp: thingsScheduleDateToString_def decodedDate_def io_bind_def io_return_def
                 io_lift_def Let_def calibrate_result split: sum.splits)

lemma rowToTodo_calibrated_state: "snd (rowToTodo rt db row (Some c)) = Some c"
  by (rule offset_stable_at_Some [OF offset_stable_rowToTodo])

lemma rowToTodo_calibrated:
  "rowToTodo rt db row (Some c) = (decoded_form rt db c row, Some c)"
  using rowToTodo_calibrated_state [of rt db row c]
  by (cases "rowToTodo rt db row (Some c)") (simp add: decoded_form_def)

lemma rowToTodo_decoded_form:
  assumes "rowToTodo rt db row s = (Inr todo, s1)"
  shows "decoded_form rt db (calibrated_offset rt db s) row = Inr todo"
proof -
  have "fst (rowToTodo rt db row s)
          = fst (rowToTodo rt db row (Some (calibrated_offset rt db s)))"
    using offset_stable_rowToTodo [of rt db row] unfolding offset_stable_def by blast
  then show ?thesis using assms by (simp add: decoded_form_def)
qed

lemma decoded_form_fields:
  assumes "decoded_form rt db c row = Inr todo"
  shows "Todo.uuid todo = RawTaskRow.uuid row"
    and "Todo.repeating todo \<longleftrightarrow> RawTaskRow.rt1_recurrenceRule row \<noteq> RawNull"
    and "parseRecurrenceRule rt (RawTaskRow.rt1_recurrenceRule row)
           = Inr (Todo.recurrenceRule todo)"
    and "decodedDate c (RawTaskRow.rt1_nextInstanceStartDate row)
           = Inr (Todo.nextInstanceDate todo)"
    and "RawTaskRow.startDate row \<noteq> None \<Longrightarrow>
           decodedDate c (RawTaskRow.startDate row) = Inr (Todo.startDate todo)"
    and "RawTaskRow.startDate row = None \<Longrightarrow>
           Todo.startDate todo
             = (if RawTaskRow.rt1_recurrenceRule row \<noteq> RawNull
                then Todo.nextInstanceDate todo else None)"
    and "Todo.start todo = startToString (RawTaskRow.start row) (RawTaskRow.startBucket row)
                             (RawTaskRow.startDate row)"
proof -
  have run: "rowToTodo rt db row (Some c) = (Inr todo, Some c)"
    using assms by (simp add: rowToTodo_calibrated)
  from run show "Todo.uuid todo = RawTaskRow.uuid row"
    and "Todo.repeating todo \<longleftrightarrow> RawTaskRow.rt1_recurrenceRule row \<noteq> RawNull"
    and "parseRecurrenceRule rt (RawTaskRow.rt1_recurrenceRule row)
           = Inr (Todo.recurrenceRule todo)"
    and "decodedDate c (RawTaskRow.rt1_nextInstanceStartDate row)
           = Inr (Todo.nextInstanceDate todo)"
    and "RawTaskRow.startDate row \<noteq> None \<Longrightarrow>
           decodedDate c (RawTaskRow.startDate row) = Inr (Todo.startDate todo)"
    and "RawTaskRow.startDate row = None \<Longrightarrow>
           Todo.startDate todo
             = (if RawTaskRow.rt1_recurrenceRule row \<noteq> RawNull
                then Todo.nextInstanceDate todo else None)"
    and "Todo.start todo = startToString (RawTaskRow.start row) (RawTaskRow.startBucket row)
                             (RawTaskRow.startDate row)"
    unfolding rowToTodo_def Let_def
    by (elim io_bind_Inr_elim; simp add: tsd_calibrated split: if_splits; fastforce)+
qed

subsection \<open>Decoding a list of rows\<close>

lemma io_map_calibrated:
  assumes "io_map (rowToTodo rt db) rows (Some c) = (Inr ts, s1)"
  shows "map Inr ts = map (decoded_form rt db c) rows \<and> s1 = Some c"
  using assms
proof (induction rows arbitrary: ts s1)
  case Nil
  then show ?case by simp
next
  case (Cons row rows)
  from Cons.prems obtain t sa ts' where
    t: "rowToTodo rt db row (Some c) = (Inr t, sa)"
    and rest: "io_map (rowToTodo rt db) rows sa = (Inr ts', s1)"
    and ts: "ts = t # ts'"
    by (auto elim!: io_bind_Inr_elim)
  from t have sa: "sa = Some c" and d: "decoded_form rt db c row = Inr t"
    by (simp_all add: rowToTodo_calibrated)
  from Cons.IH [of ts' s1] rest sa
  have "map Inr ts' = map (decoded_form rt db c) rows \<and> s1 = Some c" by simp
  with d ts show ?case by simp
qed

lemma io_map_calibrated_returns:
  assumes "\<forall>row \<in> set rows. decodes rt db c row"
  shows "\<exists>ts. io_map (rowToTodo rt db) rows (Some c) = (Inr ts, Some c)"
  using assms
proof (induction rows)
  case Nil
  then show ?case by (simp add: io_return_def)
next
  case (Cons row rows)
  then obtain ts where ts: "io_map (rowToTodo rt db) rows (Some c) = (Inr ts, Some c)"
    by auto
  from Cons.prems obtain t where "decoded_form rt db c row = Inr t"
    by (auto simp: decodes_def split: sum.splits)
  then have "rowToTodo rt db row (Some c) = (Inr t, Some c)"
    by (simp add: rowToTodo_calibrated)
  with ts show ?case by (simp add: io_bind_def io_return_def)
qed

lemma io_map_decoded:
  assumes "io_map (rowToTodo rt db) rows s = (Inr ts, s1)"
  shows "map Inr ts = map (decoded_form rt db (calibrated_offset rt db s)) rows"
proof -
  let ?c = "calibrated_offset rt db s"
  have st: "offset_stable rt db (io_map (rowToTodo rt db) rows)"
    by (rule offset_stable_map) (rule offset_stable_rowToTodo)
  then have "fst (io_map (rowToTodo rt db) rows s)
               = fst (io_map (rowToTodo rt db) rows (Some ?c))"
    unfolding offset_stable_def by blast
  then have "fst (io_map (rowToTodo rt db) rows (Some ?c)) = Inr ts"
    using assms by simp
  then obtain s2 where "io_map (rowToTodo rt db) rows (Some ?c) = (Inr ts, s2)"
    by (cases "io_map (rowToTodo rt db) rows (Some ?c)") simp
  then show ?thesis using io_map_calibrated by blast
qed

lemma io_map_returns:
  assumes "\<forall>row \<in> set rows. decodes rt db (calibrated_offset rt db s) row"
  shows "\<exists>ts s1. io_map (rowToTodo rt db) rows s = (Inr ts, s1)"
proof -
  let ?c = "calibrated_offset rt db s"
  obtain ts where ts: "io_map (rowToTodo rt db) rows (Some ?c) = (Inr ts, Some ?c)"
    using io_map_calibrated_returns [OF assms] by blast
  have st: "offset_stable rt db (io_map (rowToTodo rt db) rows)"
    by (rule offset_stable_map) (rule offset_stable_rowToTodo)
  then have "fst (io_map (rowToTodo rt db) rows s)
               = fst (io_map (rowToTodo rt db) rows (Some ?c))"
    unfolding offset_stable_def by blast
  with ts have "fst (io_map (rowToTodo rt db) rows s) = Inr ts" by simp
  then show ?thesis by (cases "io_map (rowToTodo rt db) rows s") auto
qed

text \<open>A list of decoded entities lines up with the rows it came from.\<close>

lemma decoded_length:
  assumes "map Inr ts = map (decoded_form rt db c) rows"
  shows "length ts = length rows"
  using assms by (metis length_map)

lemma decoded_uuids:
  assumes "map Inr ts = map (decoded_form rt db c) rows"
  shows "map Todo.uuid ts = map RawTaskRow.uuid rows"
  using assms
proof (induction rows arbitrary: ts)
  case Nil
  then show ?case by simp
next
  case (Cons row rows)
  then obtain t ts' where ts: "ts = t # ts'" by (cases ts) auto
  with Cons.prems have d: "decoded_form rt db c row = Inr t"
    and rest: "map Inr ts' = map (decoded_form rt db c) rows" by auto
  from decoded_form_fields(1) [OF d] Cons.IH [OF rest] ts show ?case by simp
qed

lemma decoded_filter_uuid:
  assumes "map Inr ts = map (decoded_form rt db c) rows"
  shows "map Inr (filter (\<lambda>t. Todo.uuid t = u) ts)
           = map (decoded_form rt db c) (filter (\<lambda>r. RawTaskRow.uuid r = u) rows)"
  using assms
proof (induction rows arbitrary: ts)
  case Nil
  then show ?case by simp
next
  case (Cons row rows)
  then obtain t ts' where ts: "ts = t # ts'" by (cases ts) auto
  with Cons.prems have d: "decoded_form rt db c row = Inr t"
    and rest: "map Inr ts' = map (decoded_form rt db c) rows" by auto
  from decoded_form_fields(1) [OF d] Cons.IH [OF rest] ts d show ?case by simp
qed

subsection \<open>What a call returned\<close>

lemma returned_eq_Some: "returned r = Some v \<longleftrightarrow> fst r = Inr v"
  by (cases "fst r") (auto simp: returned_def)

lemma returned_obtain:
  assumes "returned r \<noteq> None"
  obtains v s1 where "r = (Inr v, s1)"
  using assms by (cases r; cases "fst r") (auto simp: returned_def)

subsection \<open>Queries\<close>

lemma BASE_TASK_COLUMNS_fields [simp]:
  "RawTaskRow.uuid (BASE_TASK_COLUMNS j) = TMTask.uuid (fst j)"
  "RawTaskRow.stopDate (BASE_TASK_COLUMNS j) = TMTask.stopDate (fst j)"
  "RawTaskRow.userModificationDate (BASE_TASK_COLUMNS j) = TMTask.userModificationDate (fst j)"
  "RawTaskRow.startDate (BASE_TASK_COLUMNS j) = TMTask.startDate (fst j)"
  "RawTaskRow.rt1_recurrenceRule (BASE_TASK_COLUMNS j) = TMTask.rt1_recurrenceRule (fst j)"
  "RawTaskRow.rt1_nextInstanceStartDate (BASE_TASK_COLUMNS j)
     = TMTask.rt1_nextInstanceStartDate (fst j)"
  "RawTaskRow.rt1_instanceCreationPaused (BASE_TASK_COLUMNS j)
     = TMTask.rt1_instanceCreationPaused (fst j)"
  "RawTaskRow.deadline (BASE_TASK_COLUMNS j) = TMTask.deadline (fst j)"
  "RawTaskRow.creationDate (BASE_TASK_COLUMNS j) = TMTask.creationDate (fst j)"
  "RawTaskRow.reminderTime (BASE_TASK_COLUMNS j) = TMTask.reminderTime (fst j)"
  "RawTaskRow.start (BASE_TASK_COLUMNS j) = TMTask.start (fst j)"
  "RawTaskRow.startBucket (BASE_TASK_COLUMNS j) = TMTask.startBucket (fst j)"
  by (simp_all add: BASE_TASK_COLUMNS_def split: prod.splits)

lemma length_order_by [simp]:
  "length (order_by_desc k rows) = length rows"
  "length (order_by_asc k rows) = length rows"
  by (simp_all add: order_by_desc_def order_by_asc_def)

lemma set_order_by [simp]:
  "set (order_by_desc k rows) = set rows"
  "set (order_by_asc k rows) = set rows"
  by (simp_all add: order_by_desc_def order_by_asc_def)

lemma sorted_order_by_asc: "sorted (map k (order_by_asc k rows))"
  by (simp add: order_by_asc_def)

lemma sorted_order_by_desc_take:
  "sorted (rev (map k (take n (order_by_desc k rows))))"
proof -
  let ?ys = "sort_key k (rev rows)"
  have "rev (map k (take n (rev ?ys))) = drop (length ?ys - n) (map k ?ys)"
    by (simp add: take_rev rev_map drop_map)
  moreover have "sorted (drop (length ?ys - n) (map k ?ys))"
    by (rule sorted_wrt_drop) simp
  ultimately show ?thesis by (simp add: order_by_desc_def)
qed

lemma capped_query:
  "length (map BASE_TASK_COLUMNS (take 50 (order_by_desc k (base_where db cond))))
     = min 50 (length (base_where db cond))"
  by simp

lemma sorted_desc_take_drop:
  assumes "sorted (rev (map k xs))" and "a \<in> set (take n xs)" and "b \<in> set (drop n xs)"
  shows "k b \<le> k a"
proof -
  have "rev (map k xs) = rev (map k (drop n xs)) @ rev (map k (take n xs))"
    by (metis append_take_drop_id map_append rev_append)
  then have "sorted (rev (map k (drop n xs)) @ rev (map k (take n xs)))"
    using assms(1) by simp
  then have "\<forall>x \<in> set (rev (map k (drop n xs))). \<forall>y \<in> set (rev (map k (take n xs))). x \<le> y"
    by (simp only: sorted_append) blast
  then show ?thesis using assms(2,3) by auto
qed

lemma sorted_order_by_desc: "sorted (rev (map k (order_by_desc k rows)))"
  using sorted_order_by_desc_take [of k "length rows" rows] by simp

lemma capped_query_top:
  assumes "j \<in> set (base_where db cond)"
    and "r \<in> set (map BASE_TASK_COLUMNS (take n (order_by_desc k (base_where db cond))))"
    and "\<And>j'. f (BASE_TASK_COLUMNS j') = k j'"
  shows "BASE_TASK_COLUMNS j
           \<in> set (map BASE_TASK_COLUMNS (take n (order_by_desc k (base_where db cond))))
         \<or> k j \<le> f r"
proof -
  let ?xs = "order_by_desc k (base_where db cond)"
  obtain j' where j': "j' \<in> set (take n ?xs)" and r: "r = BASE_TASK_COLUMNS j'"
    using assms(2) by auto
  have "j \<in> set (take n ?xs) \<union> set (drop n ?xs)"
    using assms(1) by (metis append_take_drop_id set_append set_order_by(1))
  then show ?thesis
  proof
    assume "j \<in> set (take n ?xs)"
    then show ?thesis by simp
  next
    assume "j \<in> set (drop n ?xs)"
    then have "k j \<le> k j'"
      using sorted_desc_take_drop [OF sorted_order_by_desc j'] by blast
    then show ?thesis by (simp add: r assms(3))
  qed
qed

subsection \<open>Which rows decode\<close>

lemma toISOString_cases:
  "in_Date_range tv \<Longrightarrow> \<exists>text. toISOString tv = Inr text"
  "\<not> in_Date_range tv \<Longrightarrow> toISOString tv = Inl RangeError"
  by (auto simp: toISOString_def in_Date_range_def Let_def)

lemma unixToISO_cases:
  "timestamp_in_range v \<Longrightarrow> \<exists>r. unixToISO v = Inr r"
  "\<not> timestamp_in_range v \<Longrightarrow> unixToISO v = Inl RangeError"
  using toISOString_cases
  by (cases v; fastforce simp: unixToISO_def timestamp_in_range_def split: sum.splits)+

lemma decodedDate_cases:
  "date_in_range c v \<Longrightarrow> \<exists>r. decodedDate c v = Inr r"
  "\<not> date_in_range c v \<Longrightarrow> decodedDate c v = Inl RangeError"
  using toISOString_cases
  by (cases v; fastforce simp: decodedDate_def date_in_range_def split: sum.splits)+

lemma io_bind_step:
  assumes "m s = (Inr x, s1)"
  shows "io_bind m f s = f x s1"
  using assms by (simp add: io_bind_def)

lemma dates_in_range_decodes:
  assumes "dates_in_range c row"
  shows "decodes rt db c row"
proof -
  from assms have a:
    "date_in_range c (RawTaskRow.rt1_nextInstanceStartDate row)"
    "date_in_range c (RawTaskRow.startDate row)"
    "date_in_range c (RawTaskRow.deadline row)"
    "timestamp_in_range (RawTaskRow.creationDate row)"
    "timestamp_in_range (RawTaskRow.userModificationDate row)"
    "timestamp_in_range (RawTaskRow.stopDate row)"
    "timestamp_in_range (RawTaskRow.reminderTime row)"
    by (simp_all add: dates_in_range_def)
  obtain n where n: "decodedDate c (RawTaskRow.rt1_nextInstanceStartDate row) = Inr n"
    using decodedDate_cases(1) [OF a(1)] by blast
  obtain sd where sd: "decodedDate c (RawTaskRow.startDate row) = Inr sd"
    using decodedDate_cases(1) [OF a(2)] by blast
  obtain dl where dl: "decodedDate c (RawTaskRow.deadline row) = Inr dl"
    using decodedDate_cases(1) [OF a(3)] by blast
  obtain ca where ca: "unixToISO (RawTaskRow.creationDate row) = Inr ca"
    using unixToISO_cases(1) [OF a(4)] by blast
  obtain ma where ma: "unixToISO (RawTaskRow.userModificationDate row) = Inr ma"
    using unixToISO_cases(1) [OF a(5)] by blast
  obtain co where co: "unixToISO (RawTaskRow.stopDate row) = Inr co"
    using unixToISO_cases(1) [OF a(6)] by blast
  obtain rm where rm: "unixToISO (RawTaskRow.reminderTime row) = Inr rm"
    using unixToISO_cases(1) [OF a(7)] by blast
  let ?esd = "if RawTaskRow.startDate row \<noteq> None then sd
              else if RawTaskRow.rt1_recurrenceRule row \<noteq> RawNull then n else None"
  have 1: "thingsScheduleDateToString rt db (RawTaskRow.rt1_nextInstanceStartDate row) (Some c)
             = (Inr n, Some c)"
    by (simp add: tsd_calibrated n)
  have 2: "(if RawTaskRow.startDate row \<noteq> None
            then thingsScheduleDateToString rt db (RawTaskRow.startDate row)
            else io_return (if RawTaskRow.rt1_recurrenceRule row \<noteq> RawNull then n else None))
            (Some c) = (Inr ?esd, Some c)"
    by (simp add: tsd_calibrated sd io_return_def)
  have 3: "thingsScheduleDateToString rt db (RawTaskRow.deadline row) (Some c)
             = (Inr dl, Some c)"
    by (simp add: tsd_calibrated dl)
  have 4: "io_lift (unixToISO (RawTaskRow.creationDate row)) (Some c) = (Inr ca, Some c)"
    by (simp add: io_lift_def ca)
  have 5: "io_lift (unixToISO (RawTaskRow.userModificationDate row)) (Some c) = (Inr ma, Some c)"
    by (simp add: io_lift_def ma)
  have 6: "io_lift (unixToISO (RawTaskRow.stopDate row)) (Some c) = (Inr co, Some c)"
    by (simp add: io_lift_def co)
  have 7: "io_lift (unixToISO (RawTaskRow.reminderTime row)) (Some c) = (Inr rm, Some c)"
    by (simp add: io_lift_def rm)
  have 8: "io_lift (parseRecurrenceRule rt (RawTaskRow.rt1_recurrenceRule row)) (Some c)
             = (Inr (map_option (frequency_label rt)
                      (extracted_code rt (RawTaskRow.rt1_recurrenceRule row))), Some c)"
    by (simp add: io_lift_def parseRecurrenceRule_eq)
  have "\<exists>todo. rowToTodo rt db row (Some c) = (Inr todo, Some c)"
    unfolding rowToTodo_def Let_def
    by (simp only:
          io_bind_step [of "thingsScheduleDateToString rt db
                              (RawTaskRow.rt1_nextInstanceStartDate row)" "Some c", OF 1]
          io_bind_step [of "if RawTaskRow.startDate row \<noteq> None
            then thingsScheduleDateToString rt db (RawTaskRow.startDate row)
            else io_return (if RawTaskRow.rt1_recurrenceRule row \<noteq> RawNull then n else None)"
            "Some c", OF 2]
          io_bind_step [of "thingsScheduleDateToString rt db (RawTaskRow.deadline row)"
            "Some c", OF 3]
          io_bind_step [of "io_lift (unixToISO (RawTaskRow.creationDate row))" "Some c", OF 4]
          io_bind_step [of "io_lift (unixToISO (RawTaskRow.userModificationDate row))"
            "Some c", OF 5]
          io_bind_step [of "io_lift (unixToISO (RawTaskRow.stopDate row))" "Some c", OF 6]
          io_bind_step [of "io_lift (unixToISO (RawTaskRow.reminderTime row))" "Some c", OF 7]
          io_bind_step [of "io_lift (parseRecurrenceRule rt (RawTaskRow.rt1_recurrenceRule row))"
            "Some c", OF 8]
          )
       (simp add: io_return_def)
  then show ?thesis by (auto simp: decodes_def decoded_form_def)
qed

lemma decodes_dates_in_range:
  assumes "decodes rt db c row"
  shows "dates_in_range c row"
proof -
  from assms obtain todo where d: "decoded_form rt db c row = Inr todo"
    by (auto simp: decodes_def split: sum.splits)
  then have run: "rowToTodo rt db row (Some c) = (Inr todo, Some c)"
    by (simp add: rowToTodo_calibrated)
  from run obtain n sd dl ca ma co rm where r:
      "decodedDate c (RawTaskRow.rt1_nextInstanceStartDate row) = Inr n"
      "decodedDate c (RawTaskRow.startDate row) = Inr sd"
      "decodedDate c (RawTaskRow.deadline row) = Inr dl"
      "unixToISO (RawTaskRow.creationDate row) = Inr ca"
      "unixToISO (RawTaskRow.userModificationDate row) = Inr ma"
      "unixToISO (RawTaskRow.stopDate row) = Inr co"
      "unixToISO (RawTaskRow.reminderTime row) = Inr rm"
    unfolding rowToTodo_def Let_def
    by (elim io_bind_Inr_elim)
       (cases "RawTaskRow.startDate row";
        simp add: tsd_calibrated decodedDate_def split: if_splits)
  have ok: "\<And>v r. decodedDate c v = Inr r \<Longrightarrow> date_in_range c v"
    using decodedDate_cases(2) by fastforce
  have ok': "\<And>v r. unixToISO v = Inr r \<Longrightarrow> timestamp_in_range v"
    using unixToISO_cases(2) by fastforce
  show ?thesis
    unfolding dates_in_range_def
    using ok [OF r(1)] ok [OF r(2)] ok [OF r(3)] ok' [OF r(4)] ok' [OF r(5)] ok' [OF r(6)]
      ok' [OF r(7)]
    by simp
qed

lemma decodes_iff: "decodes rt db c row \<longleftrightarrow> dates_in_range c row"
  using dates_in_range_decodes decodes_dates_in_range by blast

subsection \<open>Stores without projects and areas\<close>

lemma BASE_TASK_FROM_plain:
  assumes "\<forall>t \<in> set ts. TMTask.project t = None"
  shows "BASE_TASK_FROM (tasks_only ts) = map (\<lambda>t. (t, None, None)) ts"
proof -
  have inner: "\<And>t. t \<in> set ts \<Longrightarrow>
      concat (map (\<lambda>p. map (\<lambda>a. (t, p, a))
                 (left_join (\<lambda>a. coalesce_area t p = Some (TMArea.uuid a)) []))
              (left_join (\<lambda>p. TMTask.project t = Some (TMTask.uuid p)) ts))
        = [(t, None, None)]"
    using assms by (simp add: left_join_def)
  let ?F = "\<lambda>t. concat (map (\<lambda>p. map (\<lambda>a. (t, p, a))
                 (left_join (\<lambda>a. coalesce_area t p = Some (TMArea.uuid a)) []))
              (left_join (\<lambda>p. TMTask.project t = Some (TMTask.uuid p)) ts))"
  have m: "map ?F ts = map (\<lambda>t. [(t, None, None)]) ts"
    by (rule map_cong [OF refl]) (rule inner)
  have "BASE_TASK_FROM (tasks_only ts) = concat (map ?F ts)"
    by (simp add: BASE_TASK_FROM_def tasks_only_def)
  also have "\<dots> = concat (map (\<lambda>t. [(t, None, None)]) ts)"
    by (simp only: m)
  also have "\<dots> = map (\<lambda>t. (t, None, None)) ts"
    by (simp add: concat_map_singleton)
  finally show ?thesis .
qed

subsection \<open>The merged views\<close>

lemma getTodosByList_today:
  "getTodosByList rt db ''today'' s
     = io_map (rowToTodo rt db) (today_rows rt db (calibrated_offset rt db s))
         (Some (calibrated_offset rt db s))"
  by (simp add: getTodosByList_def io_bind_def calibrate_result Let_def today_rows_def
        today_templates_def today_things_value_def)

lemma getTodosByList_upcoming:
  "getTodosByList rt db ''upcoming'' s
     = io_map (rowToTodo rt db) (upcoming_rows rt db (calibrated_offset rt db s))
         (Some (calibrated_offset rt db s))"
  by (simp add: getTodosByList_def io_bind_def calibrate_result Let_def upcoming_rows_def
        upcoming_templates_def today_things_value_def)

lemma merge_dedup_filter_uuid:
  "filter (\<lambda>r. RawTaskRow.uuid r = u) (merge_dedup seen acc rows)
     = filter (\<lambda>r. RawTaskRow.uuid r = u) acc
       @ (if u \<in> seen then [] else take 1 (filter (\<lambda>r. RawTaskRow.uuid r = u) rows))"
  by (induction rows arbitrary: seen acc) auto

lemma merge_dedup_set:
  "set (merge_dedup seen acc rows) \<subseteq> set acc \<union> set rows"
proof (induction rows arbitrary: seen acc)
  case Nil
  then show ?case by simp
next
  case (Cons row rows)
  show ?case
    using Cons.IH [of "insert (RawTaskRow.uuid row) seen" "acc @ [row]"] Cons.IH [of seen acc]
    by auto
qed

lemma merge_dedup_uuids:
  "RawTaskRow.uuid ` set (merge_dedup seen acc rows)
     = RawTaskRow.uuid ` set acc \<union> (RawTaskRow.uuid ` set rows - seen)"
  by (induction rows arbitrary: seen acc) (auto split: if_splits)

lemma merge_dedup_distinct:
  assumes "distinct (map RawTaskRow.uuid acc)" and "RawTaskRow.uuid ` set acc \<subseteq> seen"
  shows "distinct (map RawTaskRow.uuid (merge_dedup seen acc rows))"
  using assms
proof (induction rows arbitrary: seen acc)
  case Nil
  then show ?case by simp
next
  case (Cons row rows)
  show ?case
  proof (cases "RawTaskRow.uuid row \<in> seen")
    case True
    then show ?thesis using Cons.IH [of acc seen] Cons.prems by simp
  next
    case False
    have "distinct (map RawTaskRow.uuid (acc @ [row]))"
      using Cons.prems False by auto
    moreover have "RawTaskRow.uuid ` set (acc @ [row]) \<subseteq> insert (RawTaskRow.uuid row) seen"
      using Cons.prems by auto
    ultimately show ?thesis
      using Cons.IH [of "acc @ [row]" "insert (RawTaskRow.uuid row) seen"] False by simp
  qed
qed

lemma take_1_filter_find:
  "take 1 (filter P xs) = (case find P xs of None \<Rightarrow> [] | Some x \<Rightarrow> [x])"
  by (induction xs) auto

lemma upcoming_rows_filter_uuid:
  "filter (\<lambda>r. RawTaskRow.uuid r = u) (upcoming_rows rt db c)
     = take 1 (filter (\<lambda>r. RawTaskRow.uuid r = u)
                 (query_upcoming db @ upcoming_templates rt db c))"
proof -
  have "length (take 1 (filter (\<lambda>r. RawTaskRow.uuid r = u)
                 (query_upcoming db @ upcoming_templates rt db c))) \<le> 1"
    by simp
  then have "sort_key sort_date (take 1 (filter (\<lambda>r. RawTaskRow.uuid r = u)
                 (query_upcoming db @ upcoming_templates rt db c)))
           = take 1 (filter (\<lambda>r. RawTaskRow.uuid r = u)
                 (query_upcoming db @ upcoming_templates rt db c))"
    by (cases "filter (\<lambda>r. RawTaskRow.uuid r = u)
                 (query_upcoming db @ upcoming_templates rt db c)") simp_all
  then show ?thesis
    by (simp only: upcoming_rows_def filter_sort merge_dedup_filter_uuid)
       simp
qed


lemma in_base_query:
  "r \<in> set (map BASE_TASK_COLUMNS (order_by_asc k (base_where db cond)))
     \<longleftrightarrow> (\<exists>j \<in> set (BASE_TASK_FROM db). cond (fst j) \<and> r = BASE_TASK_COLUMNS j)"
  by (auto simp: base_where_def)

lemma in_query_today:
  "r \<in> set (query_today db) \<longleftrightarrow>
     (\<exists>j \<in> set (BASE_TASK_FROM db). r = BASE_TASK_COLUMNS j
        \<and> TMTask.type (fst j) = 0 \<and> TMTask.status (fst j) = 0
        \<and> TMTask.trashed (fst j) = Some 0 \<and> TMTask.start (fst j) = Some 1
        \<and> TMTask.startDate (fst j) \<noteq> None)"
  unfolding query_today_def in_base_query
  by (auto simp: where_today_def TYPE_TODO_def STATUS_INCOMPLETE_def)

lemma in_today_templates:
  "r \<in> set (today_templates rt db c) \<longleftrightarrow>
     (\<exists>j \<in> set (BASE_TASK_FROM db). r = BASE_TASK_COLUMNS j
        \<and> TMTask.type (fst j) = 0 \<and> TMTask.status (fst j) = 0
        \<and> TMTask.trashed (fst j) = Some 0
        \<and> TMTask.rt1_recurrenceRule (fst j) \<noteq> RawNull
        \<and> TMTask.rt1_instanceCreationPaused (fst j) = Some 0
        \<and> (\<exists>n. TMTask.rt1_nextInstanceStartDate (fst j) = Some n
               \<and> today_things_value rt c - 86400 \<le> n
               \<and> n < today_things_value rt c + 86400))"
  unfolding today_templates_def query_today_recurring_def in_base_query
  by (auto simp: where_today_recurring_def TYPE_TODO_def STATUS_INCOMPLETE_def
           split: option.splits)

lemma in_query_upcoming:
  "r \<in> set (query_upcoming db) \<longleftrightarrow>
     (\<exists>j \<in> set (BASE_TASK_FROM db). r = BASE_TASK_COLUMNS j
        \<and> TMTask.type (fst j) = 0 \<and> TMTask.status (fst j) = 0
        \<and> TMTask.trashed (fst j) = Some 0 \<and> TMTask.start (fst j) = Some 1
        \<and> TMTask.startDate (fst j) \<noteq> None \<and> TMTask.startBucket (fst j) = Some 0)"
  unfolding query_upcoming_def in_base_query
  by (auto simp: where_upcoming_def TYPE_TODO_def STATUS_INCOMPLETE_def)

lemma in_upcoming_templates:
  "r \<in> set (upcoming_templates rt db c) \<longleftrightarrow>
     (\<exists>j \<in> set (BASE_TASK_FROM db). r = BASE_TASK_COLUMNS j
        \<and> TMTask.type (fst j) = 0 \<and> TMTask.status (fst j) = 0
        \<and> TMTask.trashed (fst j) = Some 0
        \<and> TMTask.rt1_recurrenceRule (fst j) \<noteq> RawNull
        \<and> TMTask.rt1_instanceCreationPaused (fst j) = Some 0
        \<and> (\<exists>n. TMTask.rt1_nextInstanceStartDate (fst j) = Some n
               \<and> today_things_value rt c < n))"
  unfolding upcoming_templates_def query_upcoming_recurring_def in_base_query
  by (auto simp: where_upcoming_recurring_def TYPE_TODO_def STATUS_INCOMPLETE_def
           split: option.splits)

lemma today_rows_uuids:
  "RawTaskRow.uuid ` set (today_rows rt db c)
     = RawTaskRow.uuid ` set (query_today db) \<union> RawTaskRow.uuid ` set (today_templates rt db c)"
  by (auto simp: today_rows_def)

lemma today_rows_filter_uuid:
  assumes "filter (\<lambda>r. RawTaskRow.uuid r = u) (query_today db) = [crow]"
  shows "filter (\<lambda>r. RawTaskRow.uuid r = u) (today_rows rt db c) = [crow]"
proof -
  have "crow \<in> set (filter (\<lambda>r. RawTaskRow.uuid r = u) (query_today db))"
    using assms by simp
  then have "u \<in> set (map RawTaskRow.uuid (query_today db))" by auto
  then have "filter (\<lambda>r. RawTaskRow.uuid r = u)
               (filter (\<lambda>r. RawTaskRow.uuid r \<notin> set (map RawTaskRow.uuid (query_today db)))
                  (today_templates rt db c)) = []"
    by (auto simp: filter_empty_conv)
  with assms show ?thesis by (simp add: today_rows_def)
qed

lemma sorted_upcoming_rows: "sorted (map sort_date (upcoming_rows rt db c))"
  by (simp add: upcoming_rows_def)

lemma distinct_map_sort_key:
  "distinct (map f (sort_key k xs)) \<longleftrightarrow> distinct (map f xs)"
  by (simp add: distinct_map)

lemma upcoming_rows_distinct: "distinct (map RawTaskRow.uuid (upcoming_rows rt db c))"
proof -
  have "distinct (map RawTaskRow.uuid
          (merge_dedup {} [] (query_upcoming db @ upcoming_templates rt db c)))"
    by (rule merge_dedup_distinct) simp_all
  then show ?thesis
    by (simp only: upcoming_rows_def distinct_map_sort_key)
qed

lemma upcoming_rows_uuids:
  "RawTaskRow.uuid ` set (upcoming_rows rt db c)
     = RawTaskRow.uuid ` set (query_upcoming db)
       \<union> RawTaskRow.uuid ` set (upcoming_templates rt db c)"
  by (simp add: upcoming_rows_def merge_dedup_uuids image_Un)

lemma upcoming_rows_subset:
  "set (upcoming_rows rt db c) \<subseteq> set (query_upcoming db) \<union> set (upcoming_templates rt db c)"
  using merge_dedup_set [of "{}" "[]" "query_upcoming db @ upcoming_templates rt db c"]
  by (simp add: upcoming_rows_def)

section \<open>Scheduling bucket\<close>

text \<open>
  Claim C1.  For every raw triple (explicit start flag, bucket code, start-date value) the
  bucket computed by \<open>startToString\<close> is the one the five-rule precedence table of the
  specification gives, the first matching rule winning: explicit someday flag, then
  scheduled flag with a start date, then someday bucket code, then inbox flag without a
  start date, and Anytime otherwise.  In particular the result is never absent.
\<close>

theorem startToString_precedence:
  "startToString explicitFlag bucketCode startDateValue
     = first_match (spec_precedence_rules explicitFlag bucketCode startDateValue)"
  by (simp add: startToString_def spec_precedence_rules_def START_BUCKET_SOMEDAY_def)

section \<open>Calibration of the epoch offset\<close>









section \<open>Recurrence rule decoding\<close>

lemma example_template_decodes:
  "returned (rowToTodo example_clock store_empty (row_of (template_task ''R'' 259200)) None)
     \<noteq> None"
  by code_simp

lemma example_template_rule:
  "RawTaskRow.rt1_recurrenceRule (row_of (template_task ''R'' 259200)) = weekly_rule
   \<and> weekly_rule \<noteq> RawNull
   \<and> map_option (frequency_label example_clock) (extracted_code example_clock weekly_rule)
       = Some ''weekly''
   \<and> map_option (frequency_label example_clock)
        (extracted_code example_clock (RawObject [ElemNumber 60, ElemBigInt 1])) = None
   \<and> recurrence_try_body example_clock (RawObject [ElemNumber 60, ElemBigInt 1])
        = Inl TypeError
   \<and> map_option (frequency_label example_clock)
        (extracted_code example_clock
           (RawUint8Array (map (\<lambda>c. of_nat (of_char c)) ''<key>fu</key><integer>12</integer>'')))
        = Some ''every-12''"
  by code_simp

lemma example_rounded_code:
  "extracted_code example_clock
     (RawString (code_units ''<key>fu</key><integer>9007199254740993</integer>''))
     = Some (Rounded 9007199254740993)"
  by code_simp

text \<open>
  Claim C7.  Decoding the recurrence rule never raises: for every column value,
  \<open>parseRecurrenceRule\<close> returns a value, and that value is the label of the extracted
  frequency-unit code (daily for 4, weekly for 256, monthly for 16, yearly for 2048, and
  \<open>every-n\<close> for any other code \<open>n\<close>) when the field is found, and absent when the value
  is null, is not text or bytes, cannot be converted, or holds no such field.  In
  \<open>every-n\<close> the code is written in decimal digits when it is below \<open>2 ^ 53\<close>; a code of
  \<open>2 ^ 53\<close> or more is a rounded number, has none of the four names, and is written as
  JavaScript writes that number.  A decoded row is marked repeating exactly when its
  recurrence-rule column is not null, and carries that label.
\<close>

theorem recurrence_decoding_never_raises:
  assumes "rowToTodo rt db row s = (Inr todo, s1)"
  shows "parseRecurrenceRule rt raw = Inr (map_option (frequency_label rt) (extracted_code rt raw))
       \<and> extracted_code rt RawNull = None
       \<and> (recurrence_xmlString rt raw = Inr (Some xml) \<and> match_fu xml = None
            \<longrightarrow> parseRecurrenceRule rt raw = Inr None)
       \<and> (recurrence_xmlString rt raw = Inr (Some xml) \<and> match_fu xml = Some ds
            \<longrightarrow> extracted_code rt raw
                 = Some (if digits_value ds < 2 ^ 53 then Integer (digits_value ds)
                         else Rounded (digits_value ds)))
       \<and> frequency_label rt (Integer 4) = ''daily''
       \<and> frequency_label rt (Integer 256) = ''weekly''
       \<and> frequency_label rt (Integer 16) = ''monthly''
       \<and> frequency_label rt (Integer 2048) = ''yearly''
       \<and> (n \<notin> {4, 256, 16, 2048}
            \<longrightarrow> frequency_label rt (Integer n) = ''every-'' @ string_of_nat (nat n))
       \<and> frequency_label rt (Rounded m) = ''every-'' @ rounded_number_text rt m
       \<and> (Todo.repeating todo \<longleftrightarrow> RawTaskRow.rt1_recurrenceRule row \<noteq> RawNull)
       \<and> Todo.recurrenceRule todo
           = map_option (frequency_label rt)
               (extracted_code rt (RawTaskRow.rt1_recurrenceRule row))"
proof -
  have d: "decoded_form rt db (calibrated_offset rt db s) row = Inr todo"
    by (rule rowToTodo_decoded_form [OF assms])
  have r: "Todo.recurrenceRule todo
           = map_option (frequency_label rt)
               (extracted_code rt (RawTaskRow.rt1_recurrenceRule row))"
    using decoded_form_fields(3) [OF d] by (simp add: parseRecurrenceRule_eq)
  have none: "recurrence_xmlString rt raw = Inr (Some xml) \<and> match_fu xml = None
            \<longrightarrow> parseRecurrenceRule rt raw = Inr None"
    by (simp add: parseRecurrenceRule_eq extracted_code_def)
  have code: "recurrence_xmlString rt raw = Inr (Some xml) \<and> match_fu xml = Some ds
            \<longrightarrow> extracted_code rt raw
                 = Some (if digits_value ds < 2 ^ 53 then Integer (digits_value ds)
                         else Rounded (digits_value ds))"
    by (simp add: extracted_code_def parseInt10_def Let_def)
  have labels: "frequency_label rt (Integer 4) = ''daily''"
    "frequency_label rt (Integer 256) = ''weekly''"
    "frequency_label rt (Integer 16) = ''monthly''"
    "frequency_label rt (Integer 2048) = ''yearly''"
    "n \<notin> {4, 256, 16, 2048}
       \<longrightarrow> frequency_label rt (Integer n) = ''every-'' @ string_of_nat (nat n)"
    "frequency_label rt (Rounded m) = ''every-'' @ rounded_number_text rt m"
    by (simp_all add: frequency_label_def)
  show ?thesis
    by (intro conjI parseRecurrenceRule_eq extracted_code_RawNull none code labels
          decoded_form_fields(2) [OF d] r)
qed

theorem recurrence_decoding_never_raises_witness:
  "parseRecurrenceRule example_clock weekly_rule = Inr (Some ''weekly'')
   \<and> parseRecurrenceRule example_clock (RawObject [ElemNumber 60, ElemBigInt 1]) = Inr None
   \<and> parseRecurrenceRule example_clock
        (RawUint8Array (map (\<lambda>c. of_nat (of_char c)) ''<key>fu</key><integer>12</integer>''))
        = Inr (Some ''every-12'')
   \<and> extracted_code example_clock
        (RawString (code_units ''<key>fu</key><integer>9007199254740993</integer>''))
        = Some (Rounded 9007199254740993)
   \<and> map_option Todo.repeating
        (returned (rowToTodo example_clock store_empty (row_of (template_task ''R'' 259200)) None))
        = Some True
   \<and> map_option Todo.recurrenceRule
        (returned (rowToTodo example_clock store_empty (row_of (template_task ''R'' 259200)) None))
        = Some (Some ''weekly'')"
proof -
  obtain todo s1 where run:
    "rowToTodo example_clock store_empty (row_of (template_task ''R'' 259200)) None
       = (Inr todo, s1)"
    using example_template_decodes by (rule returned_obtain)
  note inst = recurrence_decoding_never_raises [OF run]
  have p1: "parseRecurrenceRule example_clock weekly_rule
              = Inr (map_option (frequency_label example_clock)
                       (extracted_code example_clock weekly_rule))"
    by (rule inst [of weekly_rule, THEN conjunct1])
  have p2: "parseRecurrenceRule example_clock (RawObject [ElemNumber 60, ElemBigInt 1])
              = Inr (map_option (frequency_label example_clock)
                       (extracted_code example_clock (RawObject [ElemNumber 60, ElemBigInt 1])))"
    by (rule inst [of "RawObject [ElemNumber 60, ElemBigInt 1]", THEN conjunct1])
  have p3: "parseRecurrenceRule example_clock
              (RawUint8Array (map (\<lambda>c. of_nat (of_char c)) ''<key>fu</key><integer>12</integer>''))
              = Inr (map_option (frequency_label example_clock)
                       (extracted_code example_clock
                          (RawUint8Array (map (\<lambda>c. of_nat (of_char c))
                             ''<key>fu</key><integer>12</integer>''))))"
    by (rule inst [of "RawUint8Array (map (\<lambda>c. of_nat (of_char c))
                         ''<key>fu</key><integer>12</integer>'')", THEN conjunct1])
  have p4: "Todo.repeating todo
              \<longleftrightarrow> RawTaskRow.rt1_recurrenceRule (row_of (template_task ''R'' 259200)) \<noteq> RawNull"
    by (rule inst [of RawNull, THEN conjunct2, THEN conjunct2, THEN conjunct2, THEN conjunct2, THEN conjunct2, THEN conjunct2, THEN conjunct2, THEN conjunct2, THEN conjunct2, THEN conjunct2, THEN conjunct1])
  have p5: "Todo.recurrenceRule todo
              = map_option (frequency_label example_clock)
                  (extracted_code example_clock
                     (RawTaskRow.rt1_recurrenceRule (row_of (template_task ''R'' 259200))))"
    by (rule inst [of RawNull, THEN conjunct2, THEN conjunct2, THEN conjunct2, THEN conjunct2, THEN conjunct2, THEN conjunct2, THEN conjunct2, THEN conjunct2, THEN conjunct2, THEN conjunct2, THEN conjunct2])
  have "returned (rowToTodo example_clock store_empty (row_of (template_task ''R'' 259200)) None)
          = Some todo"
    using run by (simp add: returned_def)
  then show ?thesis
    by (simp only: p1 p2 p3 p4 p5 example_template_rule example_rounded_code
          option.map simp_thms)
qed
section \<open>Effective start date\<close>

lemma example_rows_decode:
  "returned (rowToTodo example_clock store_empty (row_of (scheduled_task ''S'' 172800)) None)
     \<noteq> None
   \<and> returned (rowToTodo example_clock store_empty (row_of (blank_task ''B'')) None) \<noteq> None"
  by code_simp

lemma example_rows_columns:
  "RawTaskRow.startDate (row_of (scheduled_task ''S'' 172800)) = Some 172800
   \<and> RawTaskRow.startDate (row_of (template_task ''R'' 259200)) = None
   \<and> RawTaskRow.rt1_nextInstanceStartDate (row_of (template_task ''R'' 259200)) = Some 259200
   \<and> RawTaskRow.startDate (row_of (blank_task ''B'')) = None
   \<and> RawTaskRow.rt1_recurrenceRule (row_of (blank_task ''B'')) = RawNull
   \<and> decodedDate (calibrated_offset example_clock store_empty None) (Some 172800)
       = Inr (Some ''2021-11-26'')
   \<and> decodedDate (calibrated_offset example_clock store_empty None) (Some 259200)
       = Inr (Some ''2021-11-27'')"
  by code_simp

text \<open>
  Claim C6.  For every row that decodes: when the raw start date is present, the exposed
  start date is its decoded value; when it is null and the row has a recurrence rule,
  the exposed start date is the decoded next-occurrence date (absent when that value is
  null); otherwise it is absent.  Both are decoded by the same conversion, the calendar
  day of the raw value plus the calibrated offset.
\<close>

theorem effective_start_date:
  assumes "rowToTodo rt db row s = (Inr todo, s1)"
  shows "Inr (Todo.startDate todo)
           = (if RawTaskRow.startDate row \<noteq> None
              then decodedDate (calibrated_offset rt db s) (RawTaskRow.startDate row)
              else if RawTaskRow.rt1_recurrenceRule row \<noteq> RawNull
              then decodedDate (calibrated_offset rt db s)
                     (RawTaskRow.rt1_nextInstanceStartDate row)
              else Inr None)"
proof -
  have d: "decoded_form rt db (calibrated_offset rt db s) row = Inr todo"
    by (rule rowToTodo_decoded_form [OF assms])
  show ?thesis
    using decoded_form_fields(4,5,6) [OF d] by auto
qed

theorem effective_start_date_witness:
  "map_option Todo.startDate
     (returned (rowToTodo example_clock store_empty (row_of (scheduled_task ''S'' 172800)) None))
     = Some (Some ''2021-11-26'')
   \<and> map_option Todo.startDate
     (returned (rowToTodo example_clock store_empty (row_of (template_task ''R'' 259200)) None))
     = Some (Some ''2021-11-27'')
   \<and> map_option Todo.startDate
     (returned (rowToTodo example_clock store_empty (row_of (blank_task ''B'')) None))
     = Some None"
proof -
  obtain t1 s1 where r1:
    "rowToTodo example_clock store_empty (row_of (scheduled_task ''S'' 172800)) None = (Inr t1, s1)"
    using example_rows_decode [THEN conjunct1] by (rule returned_obtain)
  obtain t2 s2 where r2:
    "rowToTodo example_clock store_empty (row_of (template_task ''R'' 259200)) None = (Inr t2, s2)"
    using example_template_decodes by (rule returned_obtain)
  obtain t3 s3 where r3:
    "rowToTodo example_clock store_empty (row_of (blank_task ''B'')) None = (Inr t3, s3)"
    using example_rows_decode [THEN conjunct2] by (rule returned_obtain)
  show ?thesis
    using effective_start_date [OF r1] effective_start_date [OF r2] effective_start_date [OF r3]
      example_rows_columns example_template_rule
    by (simp add: returned_def r1 r2 r3)
qed

section \<open>Capped views\<close>
lemma sql_like_any: "sql_like ''%'' s"
  by (induction s) simp_all

lemma example_sixty_rows:
  "BASE_TASK_FROM store_sixty_completed
     = map (\<lambda>i. (completed_task i, None, None)) [0..<60]"
  unfolding store_sixty_completed_def
  by (subst BASE_TASK_FROM_plain) (simp_all add: completed_task_def blank_task_def comp_def)

lemma example_sixty_logbook:
  "base_where store_sixty_completed where_logbook
     = map (\<lambda>i. (completed_task i, None, None)) [0..<60]"
  unfolding base_where_def example_sixty_rows
  by (simp add: filter_map comp_def where_logbook_def completed_task_def blank_task_def
        TYPE_TODO_def STATUS_COMPLETED_def)

lemma example_sixty_search:
  "base_where store_sixty_completed (where_search ''%t%'')
     = map (\<lambda>i. (completed_task i, None, None)) [0..<60]"
  unfolding base_where_def example_sixty_rows
  by (simp add: filter_map comp_def where_search_def completed_task_def blank_task_def
        TYPE_TODO_def like_column_def sql_like_any)

lemma example_sixty_in_range:
  assumes "j \<in> set (map (\<lambda>i. (completed_task i, None, None)) [0..<60])"
  shows "dates_in_range c (BASE_TASK_COLUMNS j)"
  using assms
  by (auto simp: dates_in_range_def date_in_range_def timestamp_in_range_def in_Date_range_def
        completed_task_def blank_task_def)

lemma example_sixty_logbook_decodes:
  "\<forall>row \<in> set (query_logbook store_sixty_completed). decodes rt db c row"
  unfolding query_logbook_def example_sixty_logbook decodes_iff
  using example_sixty_in_range
  by (metis (no_types, lifting) imageE in_set_takeD list.set_map set_order_by(1))

lemma example_sixty_search_decodes:
  "\<forall>row \<in> set (query_search store_sixty_completed ''%t%'').
     decodes rt db c row"
  unfolding query_search_def example_sixty_search decodes_iff
  using example_sixty_in_range
  by (metis (no_types, lifting) imageE in_set_takeD list.set_map set_order_by(1))

lemma example_late_stop:
  "fst (getTodosByList example_clock store_late_stop ''logbook'' None) = Inl RangeError
   \<and> returned_uuids (searchTodos example_clock store_late_stop ''good'' None) = Some [''good'']"
  by code_simp

subsection \<open>Each capped view on its own\<close>

lemma logbook_capped:
  assumes "getTodosByList rt db ''logbook'' s = (Inr ts, s1)"
  shows "length ts \<le> 50
       \<and> length ts = min 50 (length (base_where db where_logbook))
       \<and> map Inr ts = map (decoded_form rt db (calibrated_offset rt db s)) (query_logbook db)"
proof -
  have l: "io_map (rowToTodo rt db) (query_logbook db) s = (Inr ts, s1)"
    using assms by (simp add: getTodosByList_def)
  have dl: "map Inr ts = map (decoded_form rt db (calibrated_offset rt db s)) (query_logbook db)"
    by (rule io_map_decoded [OF l])
  have ll: "length ts = min 50 (length (base_where db where_logbook))"
    using decoded_length [OF dl] by (simp add: query_logbook_def)
  have "length ts \<le> 50" using ll by simp
  then show ?thesis using ll dl by (intro conjI)
qed

lemma logbook_returns:
  assumes "\<forall>row \<in> set (query_logbook db). dates_in_range (calibrated_offset rt db s) row"
  shows "\<exists>ts s1. getTodosByList rt db ''logbook'' s = (Inr ts, s1)"
proof -
  have "\<forall>row \<in> set (query_logbook db). decodes rt db (calibrated_offset rt db s) row"
    using assms by (simp add: decodes_iff)
  from io_map_returns [OF this] show ?thesis
    by (simp add: getTodosByList_def)
qed

lemma logbook_sorted:
  "sorted (rev (map RawTaskRow.stopDate (query_logbook db)))"
  using sorted_order_by_desc_take [of "\<lambda>j. TMTask.stopDate (fst j)" 50 "base_where db where_logbook"]
  by (simp add: query_logbook_def comp_def)

lemma logbook_top:
  "\<forall>j \<in> set (base_where db where_logbook). \<forall>r \<in> set (query_logbook db).
     BASE_TASK_COLUMNS j \<in> set (query_logbook db)
     \<or> TMTask.stopDate (fst j) \<le> RawTaskRow.stopDate r"
  unfolding query_logbook_def
  by (intro ballI capped_query_top [where f = RawTaskRow.stopDate]) simp_all

lemma search_capped:
  assumes "searchTodos rt db q s = (Inr ts, s1)"
  shows "length ts \<le> 50
       \<and> length ts = min 50 (length (base_where db (where_search (''%'' @ q @ ''%''))))
       \<and> map Inr ts = map (decoded_form rt db (calibrated_offset rt db s))
                         (query_search db (''%'' @ q @ ''%''))"
proof -
  have l: "io_map (rowToTodo rt db) (query_search db (''%'' @ q @ ''%'')) s = (Inr ts, s1)"
    using assms by (simp add: searchTodos_def Let_def)
  have dl: "map Inr ts = map (decoded_form rt db (calibrated_offset rt db s))
                          (query_search db (''%'' @ q @ ''%''))"
    by (rule io_map_decoded [OF l])
  have ll: "length ts = min 50 (length (base_where db (where_search (''%'' @ q @ ''%''))))"
    using decoded_length [OF dl] by (simp add: query_search_def)
  have "length ts \<le> 50" using ll by simp
  then show ?thesis using ll dl by (intro conjI)
qed

lemma search_returns:
  assumes "\<forall>row \<in> set (query_search db (''%'' @ q @ ''%'')).
             dates_in_range (calibrated_offset rt db s) row"
  shows "\<exists>ts s1. searchTodos rt db q s = (Inr ts, s1)"
proof -
  have "\<forall>row \<in> set (query_search db (''%'' @ q @ ''%'')).
          decodes rt db (calibrated_offset rt db s) row"
    using assms by (simp add: decodes_iff)
  from io_map_returns [OF this] show ?thesis
    by (simp add: searchTodos_def Let_def)
qed

lemma search_sorted:
  "sorted (rev (map RawTaskRow.userModificationDate (query_search db (''%'' @ q @ ''%''))))"
  using sorted_order_by_desc_take [of "\<lambda>j. TMTask.userModificationDate (fst j)" 50
      "base_where db (where_search (''%'' @ q @ ''%''))"]
  by (simp add: query_search_def comp_def)

lemma search_top:
  "\<forall>j \<in> set (base_where db (where_search (''%'' @ q @ ''%''))).
     \<forall>r \<in> set (query_search db (''%'' @ q @ ''%'')).
     BASE_TASK_COLUMNS j \<in> set (query_search db (''%'' @ q @ ''%''))
     \<or> TMTask.userModificationDate (fst j) \<le> RawTaskRow.userModificationDate r"
  unfolding query_search_def
  by (intro ballI capped_query_top [where f = RawTaskRow.userModificationDate]) simp_all

text \<open>
  Claim C8.  Whatever the store holds, a list the logbook view returns has at most 50
  entries: the decoded forms of 50 matching rows (of all of them when fewer match) in
  descending order of completion time, rows without one last; no matching row that is
  left out was completed later than a returned one.  Likewise, and independently of
  the logbook, a list \<open>searchTodos\<close> returns has at most 50 entries, in descending order
  of modification time, and no matching row that is left out was modified later than a
  returned one.  Each of the two returns a list whenever the dates of the rows it
  selected are within the range of a JavaScript date; otherwise it raises and returns
  no list at all.
\<close>

theorem capped_views:
  "(getTodosByList rt db ''logbook'' s = (Inr ts, s1) \<longrightarrow>
      length ts \<le> 50
      \<and> length ts = min 50 (length (base_where db where_logbook))
      \<and> map Inr ts = map (decoded_form rt db (calibrated_offset rt db s)) (query_logbook db))
   \<and> ((\<forall>row \<in> set (query_logbook db). dates_in_range (calibrated_offset rt db s) row) \<longrightarrow>
        (\<exists>ts s1. getTodosByList rt db ''logbook'' s = (Inr ts, s1)))
   \<and> sorted (rev (map RawTaskRow.stopDate (query_logbook db)))
   \<and> (\<forall>j \<in> set (base_where db where_logbook). \<forall>r \<in> set (query_logbook db).
         BASE_TASK_COLUMNS j \<in> set (query_logbook db)
         \<or> TMTask.stopDate (fst j) \<le> RawTaskRow.stopDate r)
   \<and> (searchTodos rt db q s' = (Inr ts', s1') \<longrightarrow>
        length ts' \<le> 50
        \<and> length ts' = min 50 (length (base_where db (where_search (''%'' @ q @ ''%''))))
        \<and> map Inr ts' = map (decoded_form rt db (calibrated_offset rt db s'))
                           (query_search db (''%'' @ q @ ''%'')))
   \<and> ((\<forall>row \<in> set (query_search db (''%'' @ q @ ''%'')).
          dates_in_range (calibrated_offset rt db s') row) \<longrightarrow>
        (\<exists>ts s1. searchTodos rt db q s' = (Inr ts, s1)))
   \<and> sorted (rev (map RawTaskRow.userModificationDate
                     (query_search db (''%'' @ q @ ''%''))))
   \<and> (\<forall>j \<in> set (base_where db (where_search (''%'' @ q @ ''%''))).
         \<forall>r \<in> set (query_search db (''%'' @ q @ ''%'')).
         BASE_TASK_COLUMNS j \<in> set (query_search db (''%'' @ q @ ''%''))
         \<or> TMTask.userModificationDate (fst j) \<le> RawTaskRow.userModificationDate r)"
proof -
  have 1: "getTodosByList rt db ''logbook'' s = (Inr ts, s1) \<longrightarrow>
      length ts \<le> 50
      \<and> length ts = min 50 (length (base_where db where_logbook))
      \<and> map Inr ts = map (decoded_form rt db (calibrated_offset rt db s)) (query_logbook db)"
    by (rule impI) (rule logbook_capped)
  have 2: "(\<forall>row \<in> set (query_logbook db). dates_in_range (calibrated_offset rt db s) row) \<longrightarrow>
        (\<exists>ts s1. getTodosByList rt db ''logbook'' s = (Inr ts, s1))"
    by (rule impI) (rule logbook_returns)
  have 3: "searchTodos rt db q s' = (Inr ts', s1') \<longrightarrow>
        length ts' \<le> 50
        \<and> length ts' = min 50 (length (base_where db (where_search (''%'' @ q @ ''%''))))
        \<and> map Inr ts' = map (decoded_form rt db (calibrated_offset rt db s'))
                           (query_search db (''%'' @ q @ ''%''))"
    by (rule impI) (rule search_capped)
  have 4: "(\<forall>row \<in> set (query_search db (''%'' @ q @ ''%'')).
          dates_in_range (calibrated_offset rt db s') row) \<longrightarrow>
        (\<exists>ts s1. searchTodos rt db q s' = (Inr ts, s1))"
    by (rule impI) (rule search_returns)
  show ?thesis
    by (intro conjI 1 2 3 4 logbook_sorted logbook_top search_sorted search_top)
qed

theorem capped_views_witness:
  "map_option length
     (returned (getTodosByList example_clock store_sixty_completed ''logbook'' None)) = Some 50
   \<and> map_option length
     (returned (searchTodos example_clock store_sixty_completed ''t'' None)) = Some 50
   \<and> fst (getTodosByList example_clock store_late_stop ''logbook'' None) = Inl RangeError
   \<and> map_option length
     (returned (searchTodos example_clock store_late_stop ''good'' None)) = Some 1"
proof -
  obtain ts s1 where l:
    "getTodosByList example_clock store_sixty_completed ''logbook'' None = (Inr ts, s1)"
    using io_map_returns [where rt = example_clock and db = store_sixty_completed and s = None,
        OF example_sixty_logbook_decodes]
    by (auto simp: getTodosByList_def)
  obtain ts' s1' where q:
    "searchTodos example_clock store_sixty_completed ''t'' None = (Inr ts', s1')"
    using io_map_returns [where rt = example_clock and db = store_sixty_completed and s = None,
        OF example_sixty_search_decodes]
    by (auto simp: searchTodos_def Let_def)
  note inst = capped_views [where rt = example_clock and db = store_sixty_completed
      and s = None and ts = ts and ?s1.0 = s1 and q = "''t''" and s' = None and ts' = ts'
      and s1' = s1']
  have "length ts = min 50 (length (base_where store_sixty_completed where_logbook))"
    using inst [THEN conjunct1, THEN mp, OF l] by (elim conjE)
  moreover have "length ts'
      = min 50 (length (base_where store_sixty_completed (where_search (''%'' @ ''t'' @ ''%''))))"
    using inst [THEN conjunct2, THEN conjunct2, THEN conjunct2, THEN conjunct2,
        THEN conjunct1, THEN mp, OF q]
    by (elim conjE)
  ultimately have fifty: "length ts = 50 \<and> length ts' = 50"
    by (simp add: example_sixty_logbook example_sixty_search)
  obtain us u1 where g:
    "searchTodos example_clock store_late_stop ''good'' None = (Inr us, u1)"
    using example_late_stop
    by (cases "searchTodos example_clock store_late_stop ''good'' None")
       (auto simp: returned_uuids_def returned_def split: sum.splits)
  have "map Todo.uuid us = [''good'']"
    using example_late_stop g by (simp add: returned_uuids_def returned_def)
  then have one: "length us = 1"
    using length_map [of Todo.uuid us] by simp
  have "length us \<le> 50"
    using capped_views [where rt = example_clock and db = store_late_stop and q = "''good''"
        and s' = None and ts' = us and s1' = u1,
        THEN conjunct2, THEN conjunct2, THEN conjunct2, THEN conjunct2,
        THEN conjunct1, THEN mp, OF g]
    by (elim conjE)
  then show ?thesis
    using fifty one example_late_stop by (simp add: returned_def l q g)
qed
section \<open>The today view\<close>

lemma example_today_rows:
  "map RawTaskRow.uuid
     (today_rows example_clock store_today (calibrated_offset example_clock store_today None))
     = [''X'', ''W'', ''Y'']"
  by code_simp

lemma example_today_in_range:
  "list_all (dates_in_range (calibrated_offset example_clock store_today None))
     (today_rows example_clock store_today (calibrated_offset example_clock store_today None))"
  by code_simp

lemma example_today_concrete:
  "filter (\<lambda>r. RawTaskRow.uuid r = ''X'') (query_today store_today)
     = [row_of (scheduled_template ''X'' 172800 172800)]"
  by code_simp

lemma example_today_templates:
  "map RawTaskRow.uuid
     (today_templates example_clock store_today
        (calibrated_offset example_clock store_today None))
     = [''W'', ''X'', ''Y'']"
  by code_simp

lemma example_today_returns:
  "\<exists>ts. getTodosByList example_clock store_today ''today'' None
          = (Inr ts, Some (calibrated_offset example_clock store_today None))"
proof -
  let ?c = "calibrated_offset example_clock store_today None"
  have "\<forall>row \<in> set (today_rows example_clock store_today ?c).
          decodes example_clock store_today ?c row"
    unfolding decodes_iff using example_today_in_range unfolding list_all_iff .
  then have "\<exists>ts. io_map (rowToTodo example_clock store_today)
                    (today_rows example_clock store_today ?c) (Some ?c) = (Inr ts, Some ?c)"
    by (rule io_map_calibrated_returns)
  then show ?thesis by (simp only: getTodosByList_today)
qed

text \<open>
  Claim C3.  A list the today view returns is the decoded form of the concrete rows
  (to-dos that are incomplete, not trashed, with the scheduled flag and a start date)
  followed by the active templates (a recurrence rule, creation not paused) whose
  next-occurrence value \<open>n\<close> lies in the window around the calibrated today value \<open>T\<close>,
  \<open>T - 86400 \<le> n < T + 86400\<close>, that share no identifier with a concrete row.  Its
  identifiers are those of the concrete rows and of the templates of the window
  together.  Whenever exactly one concrete row has an identifier, the list has
  exactly one entry with that identifier, and the entry is the decoded form of the
  concrete row, also when a template of the window carries the same identifier.
\<close>

theorem today_view_merge:
  assumes "getTodosByList rt db ''today'' s = (Inr ts, s1)"
  shows "map Inr ts = map (decoded_form rt db (calibrated_offset rt db s))
                        (today_rows rt db (calibrated_offset rt db s))
    \<and> set (map Todo.uuid ts)
        = RawTaskRow.uuid ` set (query_today db)
          \<union> RawTaskRow.uuid ` set (today_templates rt db (calibrated_offset rt db s))
    \<and> (\<forall>r. r \<in> set (query_today db) \<longleftrightarrow>
         (\<exists>j \<in> set (BASE_TASK_FROM db). r = BASE_TASK_COLUMNS j
            \<and> TMTask.type (fst j) = 0 \<and> TMTask.status (fst j) = 0
            \<and> TMTask.trashed (fst j) = Some 0 \<and> TMTask.start (fst j) = Some 1
            \<and> TMTask.startDate (fst j) \<noteq> None))
    \<and> (\<forall>r. r \<in> set (today_templates rt db (calibrated_offset rt db s)) \<longleftrightarrow>
         (\<exists>j \<in> set (BASE_TASK_FROM db). r = BASE_TASK_COLUMNS j
            \<and> TMTask.type (fst j) = 0 \<and> TMTask.status (fst j) = 0
            \<and> TMTask.trashed (fst j) = Some 0
            \<and> TMTask.rt1_recurrenceRule (fst j) \<noteq> RawNull
            \<and> TMTask.rt1_instanceCreationPaused (fst j) = Some 0
            \<and> (\<exists>n. TMTask.rt1_nextInstanceStartDate (fst j) = Some n
                   \<and> today_things_value rt (calibrated_offset rt db s) - 86400 \<le> n
                   \<and> n < today_things_value rt (calibrated_offset rt db s) + 86400)))
    \<and> (\<forall>u crow. filter (\<lambda>r. RawTaskRow.uuid r = u) (query_today db) = [crow] \<longrightarrow>
         (\<exists>t. filter (\<lambda>t. Todo.uuid t = u) ts = [t]
              \<and> decoded_form rt db (calibrated_offset rt db s) crow = Inr t))"
proof -
  let ?c = "calibrated_offset rt db s"
  have run: "io_map (rowToTodo rt db) (today_rows rt db ?c) (Some ?c) = (Inr ts, s1)"
    using assms by (simp add: getTodosByList_today)
  have d: "map Inr ts = map (decoded_form rt db ?c) (today_rows rt db ?c)"
    using io_map_calibrated [OF run] by simp
  have u: "set (map Todo.uuid ts)
        = RawTaskRow.uuid ` set (query_today db)
          \<union> RawTaskRow.uuid ` set (today_templates rt db ?c)"
    using decoded_uuids [OF d] today_rows_uuids [of rt db ?c] by simp
  have one: "\<exists>t. filter (\<lambda>t. Todo.uuid t = u) ts = [t] \<and> decoded_form rt db ?c crow = Inr t"
    if "filter (\<lambda>r. RawTaskRow.uuid r = u) (query_today db) = [crow]" for u crow
  proof -
    have "map Inr (filter (\<lambda>t. Todo.uuid t = u) ts) = [decoded_form rt db ?c crow]"
      using decoded_filter_uuid [OF d, of u] today_rows_filter_uuid [OF that, of rt ?c] by simp
    then show ?thesis by (cases "filter (\<lambda>t. Todo.uuid t = u) ts") auto
  qed
  from d u one in_query_today [of _ db] in_today_templates [of _ rt db ?c]
  show ?thesis by blast
qed


theorem today_view_merge_witness:
  "returned_uuids (getTodosByList example_clock store_today ''today'' None)
     = Some [''X'', ''W'', ''Y'']
   \<and> map RawTaskRow.uuid (query_today store_today) = [''X'']
   \<and> map RawTaskRow.uuid
       (today_templates example_clock store_today
          (calibrated_offset example_clock store_today None))
     = [''W'', ''X'', ''Y'']
   \<and> map_option (\<lambda>ts. map Inr (filter (\<lambda>t. Todo.uuid t = ''X'') ts))
       (returned (getTodosByList example_clock store_today ''today'' None))
     = Some [decoded_form example_clock store_today
               (calibrated_offset example_clock store_today None)
               (row_of (scheduled_template ''X'' 172800 172800))]"
proof -
  let ?c = "calibrated_offset example_clock store_today None"
  obtain ts where run:
    "getTodosByList example_clock store_today ''today'' None = (Inr ts, Some ?c)"
    using example_today_returns by blast
  note inst = today_view_merge [OF run]
  have "map Inr ts = map (decoded_form example_clock store_today ?c)
                       (today_rows example_clock store_today ?c)"
    using inst by (rule conjunct1)
  then have "map Todo.uuid ts = map RawTaskRow.uuid (today_rows example_clock store_today ?c)"
    by (rule decoded_uuids)
  then have uu: "map Todo.uuid ts = [''X'', ''W'', ''Y'']"
    by (simp only: example_today_rows)
  have "\<forall>u crow. filter (\<lambda>r. RawTaskRow.uuid r = u) (query_today store_today) = [crow] \<longrightarrow>
         (\<exists>t. filter (\<lambda>t. Todo.uuid t = u) ts = [t]
              \<and> decoded_form example_clock store_today ?c crow = Inr t)"
    using inst by (elim conjE)
  then obtain t where "filter (\<lambda>t. Todo.uuid t = ''X'') ts = [t]"
    and "decoded_form example_clock store_today ?c
           (row_of (scheduled_template ''X'' 172800 172800)) = Inr t"
    using example_today_concrete by blast
  moreover have "map RawTaskRow.uuid (query_today store_today) = [''X'']"
    by code_simp
  ultimately show ?thesis
    using uu example_today_templates by (simp add: returned_uuids_def returned_def run)
qed

section \<open>The upcoming view\<close>

lemma example_upcoming_rows:
  "map RawTaskRow.uuid
     (upcoming_rows example_clock store_upcoming
        (calibrated_offset example_clock store_upcoming None))
     = [''P'', ''Y'', ''X'']"
  by code_simp

lemma example_upcoming_dates:
  "map sort_date
     (upcoming_rows example_clock store_upcoming
        (calibrated_offset example_clock store_upcoming None))
     = [(False, 86400), (False, 259200), (False, 345600)]
   \<and> map RawTaskRow.startDate
     (upcoming_rows example_clock store_upcoming
        (calibrated_offset example_clock store_upcoming None))
     = [Some 86400, None, Some 172800]"
  by code_simp

lemma example_upcoming_in_range:
  "list_all (dates_in_range (calibrated_offset example_clock store_upcoming None))
     (upcoming_rows example_clock store_upcoming
        (calibrated_offset example_clock store_upcoming None))"
  by code_simp

lemma example_upcoming_concrete:
  "''X'' \<in> RawTaskRow.uuid ` set (query_upcoming store_upcoming)
   \<and> ''X'' \<in> RawTaskRow.uuid ` set (upcoming_templates example_clock store_upcoming
                  (calibrated_offset example_clock store_upcoming None))
   \<and> find (\<lambda>r. RawTaskRow.uuid r = ''X'') (query_upcoming store_upcoming)
       = Some (row_of (scheduled_template ''X'' 172800 345600))"
  by code_simp

lemma example_upcoming_returns:
  "\<exists>ts. getTodosByList example_clock store_upcoming ''upcoming'' None
          = (Inr ts, Some (calibrated_offset example_clock store_upcoming None))"
proof -
  let ?c = "calibrated_offset example_clock store_upcoming None"
  have "\<forall>row \<in> set (upcoming_rows example_clock store_upcoming ?c).
          decodes example_clock store_upcoming ?c row"
    unfolding decodes_iff using example_upcoming_in_range unfolding list_all_iff .
  then have "\<exists>ts. io_map (rowToTodo example_clock store_upcoming)
                    (upcoming_rows example_clock store_upcoming ?c) (Some ?c)
                 = (Inr ts, Some ?c)"
    by (rule io_map_calibrated_returns)
  then show ?thesis by (simp only: getTodosByList_upcoming)
qed

lemma example_upcoming_facts:
  "TMTask.startDate (scheduled_task ''P'' 86400) = Some 86400
   \<and> today_things_value example_clock (calibrated_offset example_clock store_upcoming None)
       = 172800
   \<and> scheduled_task ''P'' 86400 \<in> set (TMTask_table store_upcoming)"
  by code_simp

text \<open>
  Claim C9.  In the upcoming view, for every identifier carried by a concrete row
  (so also for one carried by a concrete row and a template row), a returned list has
  exactly one entry with that identifier, and it is the decoded form of the first
  concrete row with it: concrete rows come first in the merge, and the first row of an
  identifier is kept.
\<close>

theorem upcoming_concrete_wins:
  assumes "getTodosByList rt db ''upcoming'' s = (Inr ts, s1)"
    and "u \<in> RawTaskRow.uuid ` set (query_upcoming db)"
  shows "\<exists>crow t. find (\<lambda>r. RawTaskRow.uuid r = u) (query_upcoming db) = Some crow
           \<and> filter (\<lambda>t. Todo.uuid t = u) ts = [t]
           \<and> decoded_form rt db (calibrated_offset rt db s) crow = Inr t"
proof -
  let ?c = "calibrated_offset rt db s"
  have run: "io_map (rowToTodo rt db) (upcoming_rows rt db ?c) (Some ?c) = (Inr ts, s1)"
    using assms(1) by (simp add: getTodosByList_upcoming)
  have d: "map Inr ts = map (decoded_form rt db ?c) (upcoming_rows rt db ?c)"
    using io_map_calibrated [OF run] by simp
  obtain crow where crow: "find (\<lambda>r. RawTaskRow.uuid r = u) (query_upcoming db) = Some crow"
    using assms(2) by (cases "find (\<lambda>r. RawTaskRow.uuid r = u) (query_upcoming db)")
      (auto simp: find_None_iff)
  have "filter (\<lambda>r. RawTaskRow.uuid r = u) (query_upcoming db) \<noteq> []"
    using assms(2) by (auto simp: filter_empty_conv)
  then have t1: "take 1 (filter (\<lambda>r. RawTaskRow.uuid r = u)
                 (query_upcoming db @ upcoming_templates rt db ?c))
        = take 1 (filter (\<lambda>r. RawTaskRow.uuid r = u) (query_upcoming db))"
    by (cases "filter (\<lambda>r. RawTaskRow.uuid r = u) (query_upcoming db)") simp_all
  have t2: "take 1 (filter (\<lambda>r. RawTaskRow.uuid r = u) (query_upcoming db)) = [crow]"
    by (simp only: take_1_filter_find crow option.case)
  have "filter (\<lambda>r. RawTaskRow.uuid r = u) (upcoming_rows rt db ?c) = [crow]"
    by (simp only: upcoming_rows_filter_uuid t1 t2)
  then have "map Inr (filter (\<lambda>t. Todo.uuid t = u) ts) = [decoded_form rt db ?c crow]"
    using decoded_filter_uuid [OF d, of u] by simp
  then have "\<exists>t. filter (\<lambda>t. Todo.uuid t = u) ts = [t] \<and> decoded_form rt db ?c crow = Inr t"
    by (cases "filter (\<lambda>t. Todo.uuid t = u) ts") auto
  with crow show ?thesis by blast
qed


theorem upcoming_concrete_wins_witness:
  "''X'' \<in> RawTaskRow.uuid ` set (query_upcoming store_upcoming)
   \<and> ''X'' \<in> RawTaskRow.uuid ` set (upcoming_templates example_clock store_upcoming
                  (calibrated_offset example_clock store_upcoming None))
   \<and> map_option (\<lambda>ts. map Inr (filter (\<lambda>t. Todo.uuid t = ''X'') ts))
       (returned (getTodosByList example_clock store_upcoming ''upcoming'' None))
     = Some [decoded_form example_clock store_upcoming
               (calibrated_offset example_clock store_upcoming None)
               (row_of (scheduled_template ''X'' 172800 345600))]"
proof -
  let ?c = "calibrated_offset example_clock store_upcoming None"
  obtain ts where run:
    "getTodosByList example_clock store_upcoming ''upcoming'' None = (Inr ts, Some ?c)"
    using example_upcoming_returns by blast
  obtain crow t where
    "find (\<lambda>r. RawTaskRow.uuid r = ''X'') (query_upcoming store_upcoming) = Some crow"
    and "filter (\<lambda>t. Todo.uuid t = ''X'') ts = [t]"
    and "decoded_form example_clock store_upcoming ?c crow = Inr t"
    using upcoming_concrete_wins [OF run example_upcoming_concrete [THEN conjunct1]] by blast
  then show ?thesis
    using example_upcoming_concrete by (simp add: returned_def run)
qed

subsection \<open>What the upcoming view returns\<close>

text \<open>
  A list the upcoming view returns is the decoded form of rows that are sorted in
  ascending order of their sort date, that carry pairwise different identifiers, and
  that are taken from the concrete rows and the template rows, every identifier of
  either kind being present.  The template rows are the to-dos that are incomplete, not
  trashed, with a recurrence rule, creation not paused, and a next-occurrence value
  strictly after the calibrated today value.  The concrete rows are the to-dos that are
  incomplete, not trashed, with the scheduled flag, a start date and the anytime
  bucket; the query that selects them has no condition on the start date.  The sort
  date of a row is its next-occurrence value when its recurrence-rule value is truthy
  (as every blob is) and its raw start date otherwise, and \<open>Infinity\<close> when that value is
  null.
\<close>

lemma upcoming_merge_dedup_sort:
  assumes "getTodosByList rt db ''upcoming'' s = (Inr ts, s1)"
  shows "map Inr ts = map (decoded_form rt db (calibrated_offset rt db s))
                        (upcoming_rows rt db (calibrated_offset rt db s))
    \<and> sorted (map sort_date (upcoming_rows rt db (calibrated_offset rt db s)))
    \<and> (\<forall>r. sort_date r
            = (if js_truthy (RawTaskRow.rt1_recurrenceRule r)
               then or_Infinity (RawTaskRow.rt1_nextInstanceStartDate r)
               else or_Infinity (RawTaskRow.startDate r)))
    \<and> distinct (map Todo.uuid ts)
    \<and> set (map Todo.uuid ts)
        = RawTaskRow.uuid ` set (query_upcoming db)
          \<union> RawTaskRow.uuid ` set (upcoming_templates rt db (calibrated_offset rt db s))
    \<and> set (upcoming_rows rt db (calibrated_offset rt db s))
        \<subseteq> set (query_upcoming db)
          \<union> set (upcoming_templates rt db (calibrated_offset rt db s))
    \<and> (\<forall>r. r \<in> set (query_upcoming db) \<longleftrightarrow>
         (\<exists>j \<in> set (BASE_TASK_FROM db). r = BASE_TASK_COLUMNS j
            \<and> TMTask.type (fst j) = 0 \<and> TMTask.status (fst j) = 0
            \<and> TMTask.trashed (fst j) = Some 0 \<and> TMTask.start (fst j) = Some 1
            \<and> TMTask.startDate (fst j) \<noteq> None \<and> TMTask.startBucket (fst j) = Some 0))
    \<and> (\<forall>r. r \<in> set (upcoming_templates rt db (calibrated_offset rt db s)) \<longleftrightarrow>
         (\<exists>j \<in> set (BASE_TASK_FROM db). r = BASE_TASK_COLUMNS j
            \<and> TMTask.type (fst j) = 0 \<and> TMTask.status (fst j) = 0
            \<and> TMTask.trashed (fst j) = Some 0
            \<and> TMTask.rt1_recurrenceRule (fst j) \<noteq> RawNull
            \<and> TMTask.rt1_instanceCreationPaused (fst j) = Some 0
            \<and> (\<exists>n. TMTask.rt1_nextInstanceStartDate (fst j) = Some n
                   \<and> today_things_value rt (calibrated_offset rt db s) < n)))"
proof -
  let ?c = "calibrated_offset rt db s"
  have run: "io_map (rowToTodo rt db) (upcoming_rows rt db ?c) (Some ?c) = (Inr ts, s1)"
    using assms by (simp add: getTodosByList_upcoming)
  have d: "map Inr ts = map (decoded_form rt db ?c) (upcoming_rows rt db ?c)"
    using io_map_calibrated [OF run] by simp
  have u: "map Todo.uuid ts = map RawTaskRow.uuid (upcoming_rows rt db ?c)"
    by (rule decoded_uuids [OF d])
  have di: "distinct (map Todo.uuid ts)"
    unfolding u by (rule upcoming_rows_distinct)
  have us: "set (map Todo.uuid ts)
        = RawTaskRow.uuid ` set (query_upcoming db)
          \<union> RawTaskRow.uuid ` set (upcoming_templates rt db ?c)"
    unfolding u using upcoming_rows_uuids [of rt db ?c] by simp
  have sd: "\<forall>r. sort_date r
            = (if js_truthy (RawTaskRow.rt1_recurrenceRule r)
               then or_Infinity (RawTaskRow.rt1_nextInstanceStartDate r)
               else or_Infinity (RawTaskRow.startDate r))"
    by (simp add: sort_date_def)
  have q1: "\<forall>r. r \<in> set (query_upcoming db) \<longleftrightarrow>
         (\<exists>j \<in> set (BASE_TASK_FROM db). r = BASE_TASK_COLUMNS j
            \<and> TMTask.type (fst j) = 0 \<and> TMTask.status (fst j) = 0
            \<and> TMTask.trashed (fst j) = Some 0 \<and> TMTask.start (fst j) = Some 1
            \<and> TMTask.startDate (fst j) \<noteq> None \<and> TMTask.startBucket (fst j) = Some 0)"
    by (intro allI in_query_upcoming)
  have q2: "\<forall>r. r \<in> set (upcoming_templates rt db ?c) \<longleftrightarrow>
         (\<exists>j \<in> set (BASE_TASK_FROM db). r = BASE_TASK_COLUMNS j
            \<and> TMTask.type (fst j) = 0 \<and> TMTask.status (fst j) = 0
            \<and> TMTask.trashed (fst j) = Some 0
            \<and> TMTask.rt1_recurrenceRule (fst j) \<noteq> RawNull
            \<and> TMTask.rt1_instanceCreationPaused (fst j) = Some 0
            \<and> (\<exists>n. TMTask.rt1_nextInstanceStartDate (fst j) = Some n
                   \<and> today_things_value rt ?c < n))"
    by (intro allI in_upcoming_templates)
  show ?thesis
    by (intro conjI d sorted_upcoming_rows sd di us upcoming_rows_subset q1 q2)
qed

text \<open>
  Claim C4.  The upcoming view is to select the active recurring templates whose next
  occurrence is strictly after the calibrated today value, merge them with the concrete
  future tasks, deduplicate by identifier and sort by effective date, the
  next-occurrence value for templates and the raw start date for concrete rows.  The
  selection of the templates, the merge, the deduplication and the ascending order hold
  (the lemma above).  The concrete rows, however, are not restricted to the future: the
  query of the regular tasks, commented as the one of the regular future tasks, has no
  condition on the start date, although today's value is computed to filter future
  items and the query of the templates beside it compares with it (\<open>> ?\<close>).  On the
  store below, where today's value is 172800, the view returns the concrete to-do \<open>P\<close>
  whose start date 86400 lies a day before.  (A row that carries a recurrence rule is
  sorted by its next-occurrence value also when it came from the query of the concrete
  rows: \<open>X\<close>, whose start date is 172800, stands behind \<open>Y\<close>, sorted by 345600.)
\<close>

theorem upcoming_returns_past_task:
  "returned_uuids (getTodosByList example_clock store_upcoming ''upcoming'' None)
     = Some [''P'', ''Y'', ''X'']
   \<and> scheduled_task ''P'' 86400 \<in> set (TMTask_table store_upcoming)
   \<and> TMTask.startDate (scheduled_task ''P'' 86400) = Some 86400
   \<and> today_things_value example_clock (calibrated_offset example_clock store_upcoming None)
       = 172800
   \<and> map sort_date
        (upcoming_rows example_clock store_upcoming
           (calibrated_offset example_clock store_upcoming None))
       = [(False, 86400), (False, 259200), (False, 345600)]
   \<and> map RawTaskRow.startDate
        (upcoming_rows example_clock store_upcoming
           (calibrated_offset example_clock store_upcoming None))
       = [Some 86400, None, Some 172800]"
proof -
  let ?c = "calibrated_offset example_clock store_upcoming None"
  obtain ts where run:
    "getTodosByList example_clock store_upcoming ''upcoming'' None = (Inr ts, Some ?c)"
    using example_upcoming_returns by blast
  have "map Todo.uuid ts = map RawTaskRow.uuid (upcoming_rows example_clock store_upcoming ?c)"
    using upcoming_merge_dedup_sort [OF run, THEN conjunct1] by (rule decoded_uuids)
  then have "map Todo.uuid ts = [''P'', ''Y'', ''X'']"
    by (simp only: example_upcoming_rows)
  then have "returned_uuids (getTodosByList example_clock store_upcoming ''upcoming'' None)
               = Some [''P'', ''Y'', ''X'']"
    by (simp add: returned_uuids_def returned_def run)
  then show ?thesis
    using example_upcoming_facts example_upcoming_dates by (intro conjI) (elim conjE, assumption)+
qed
section \<open>Trashed rows\<close>

text \<open>
  Every list view, the search and the listing by tag select rows with \<open>trashed = 0\<close>
  only: each returned to-do carries the identifier of a task that is not trashed.
\<close>

lemma BASE_TASK_FROM_task:
  "j \<in> set (BASE_TASK_FROM db) \<Longrightarrow> fst j \<in> set (TMTask_table db)"
  by (auto simp: BASE_TASK_FROM_def)

lemma base_where_not_trashed:
  assumes "j \<in> set (base_where db cond)" and "\<And>t. cond t \<Longrightarrow> TMTask.trashed t = Some 0"
  shows "\<exists>t \<in> set (TMTask_table db).
           TMTask.uuid t = RawTaskRow.uuid (BASE_TASK_COLUMNS j) \<and> TMTask.trashed t = Some 0"
  using assms BASE_TASK_FROM_task [of j db] by (auto simp: base_where_def)

lemma list_query_rows_not_trashed:
  assumes "r \<in> set (query_inbox db) \<union> set (query_today db)
             \<union> set (query_today_recurring db lo hi) \<union> set (query_upcoming db)
             \<union> set (query_upcoming_recurring db v) \<union> set (query_anytime db)
             \<union> set (query_someday db) \<union> set (query_logbook db)
             \<union> set (query_search db pattern) \<union> set (query_project_todos db u)"
  shows "\<exists>t \<in> set (TMTask_table db).
           TMTask.uuid t = RawTaskRow.uuid r \<and> TMTask.trashed t = Some 0"
proof -
  from assms obtain j cond where "j \<in> set (base_where db cond)"
    and "r = BASE_TASK_COLUMNS j" and "\<forall>t. cond t \<longrightarrow> TMTask.trashed t = Some 0"
    unfolding query_inbox_def query_today_def query_today_recurring_def query_upcoming_def
      query_upcoming_recurring_def query_anytime_def query_someday_def query_logbook_def
      query_search_def query_project_todos_def
    by (auto simp: where_inbox_def where_today_def where_today_recurring_def
          where_upcoming_def where_upcoming_recurring_def where_anytime_def where_someday_def
          where_logbook_def where_search_def dest!: in_set_takeD)
  then show ?thesis using base_where_not_trashed [of j db cond] by auto
qed

lemma tag_query_rows_not_trashed:
  assumes "r \<in> set (query_tag db tagName)"
  shows "\<exists>t \<in> set (TMTask_table db).
           TMTask.uuid t = RawTaskRow.uuid r \<and> TMTask.trashed t = Some 0"
proof -
  from assms obtain j where "j \<in> set (BASE_TASK_FROM db)" and "where_tag (fst j)"
    and "r = BASE_TASK_COLUMNS j"
    by (auto simp: query_tag_def)
  then show ?thesis
    using BASE_TASK_FROM_task [of j db] by (auto simp: where_tag_def)
qed

lemma decoded_member:
  assumes "map Inr ts = map (decoded_form rt db c) rows" and "todo \<in> set ts"
  shows "\<exists>r \<in> set rows. RawTaskRow.uuid r = Todo.uuid todo"
proof -
  have "Todo.uuid todo \<in> set (map Todo.uuid ts)" using assms(2) by simp
  then have "Todo.uuid todo \<in> set (map RawTaskRow.uuid rows)"
    using decoded_uuids [OF assms(1)] by simp
  then show ?thesis by auto
qed

lemma list_views_exclude_trashed:
  assumes "getTodosByList rt db list s = (Inr ts, s1)" and "todo \<in> set ts"
  shows "\<exists>t \<in> set (TMTask_table db).
           TMTask.uuid t = Todo.uuid todo \<and> TMTask.trashed t = Some 0"
proof -
  let ?c = "calibrated_offset rt db s"
  have direct: ?thesis
    if run: "io_map (rowToTodo rt db) rows s = (Inr ts, s1)"
      and sub: "set rows \<subseteq> set (query_inbox db) \<union> set (query_today db)
             \<union> set (query_today_recurring db lo hi) \<union> set (query_upcoming db)
             \<union> set (query_upcoming_recurring db v) \<union> set (query_anytime db)
             \<union> set (query_someday db) \<union> set (query_logbook db)
             \<union> set (query_search db pattern) \<union> set (query_project_todos db u)"
    for rows s lo hi v pattern u
  proof -
    obtain r where "r \<in> set rows" and "RawTaskRow.uuid r = Todo.uuid todo"
      using decoded_member [OF io_map_decoded [OF run] assms(2)] by blast
    then show ?thesis
      using list_query_rows_not_trashed [of r db lo hi v pattern u] sub by auto
  qed
  consider "list = ''today''" | "list = ''upcoming''"
    | "list \<noteq> ''today''" "list \<noteq> ''upcoming''" by blast
  then show ?thesis
  proof cases
    case 1
    then have "io_map (rowToTodo rt db) (today_rows rt db ?c) (Some ?c) = (Inr ts, s1)"
      using assms(1) by (simp add: getTodosByList_today)
    moreover have "set (today_rows rt db ?c)
        \<subseteq> set (query_today db) \<union> set (query_today_recurring db
              (today_things_value rt ?c - 86400) (today_things_value rt ?c + 86400))"
      by (auto simp: today_rows_def today_templates_def)
    ultimately show ?thesis
      by (intro direct [of "today_rows rt db ?c" "Some ?c"
            "today_things_value rt ?c - 86400" "today_things_value rt ?c + 86400"]) auto
  next
    case 2
    then have "io_map (rowToTodo rt db) (upcoming_rows rt db ?c) (Some ?c) = (Inr ts, s1)"
      using assms(1) by (simp add: getTodosByList_upcoming)
    moreover have "set (upcoming_rows rt db ?c)
        \<subseteq> set (query_upcoming db) \<union> set (query_upcoming_recurring db (today_things_value rt ?c))"
      using upcoming_rows_subset [of rt db ?c] by (simp add: upcoming_templates_def)
    ultimately show ?thesis
      by (intro direct [of "upcoming_rows rt db ?c" "Some ?c" _ _ "today_things_value rt ?c"])
         auto
  next
    case 3
    let ?rows = "if list = ''inbox'' then query_inbox db
                 else if list = ''anytime'' then query_anytime db
                 else if list = ''someday'' then query_someday db
                 else if list = ''logbook'' then query_logbook db else []"
    have "getTodosByList rt db list s = io_map (rowToTodo rt db) ?rows s"
      using 3 by (simp add: getTodosByList_def)
    then have "io_map (rowToTodo rt db) ?rows s = (Inr ts, s1)"
      using assms(1) by simp
    moreover have "set ?rows \<subseteq> set (query_inbox db) \<union> set (query_anytime db)
             \<union> set (query_someday db) \<union> set (query_logbook db)"
      by auto
    ultimately show ?thesis by (intro direct [of ?rows s]) auto
  qed
qed

lemma search_and_tag_exclude_trashed:
  assumes "searchTodos rt db q s = (Inr ts, s1) \<or> getTodosByTag rt db tagName s = (Inr ts, s1)"
    and "todo \<in> set ts"
  shows "\<exists>t \<in> set (TMTask_table db).
           TMTask.uuid t = Todo.uuid todo \<and> TMTask.trashed t = Some 0"
  using assms(1)
proof
  assume "searchTodos rt db q s = (Inr ts, s1)"
  then have "io_map (rowToTodo rt db) (query_search db (''%'' @ q @ ''%'')) s = (Inr ts, s1)"
    by (simp add: searchTodos_def Let_def)
  then obtain r where "r \<in> set (query_search db (''%'' @ q @ ''%''))"
    and "RawTaskRow.uuid r = Todo.uuid todo"
    using decoded_member [OF io_map_decoded assms(2)] by blast
  then show ?thesis
    using list_query_rows_not_trashed [of r db _ _ _ "''%'' @ q @ ''%''"] by auto
next
  assume "getTodosByTag rt db tagName s = (Inr ts, s1)"
  then have "io_map (rowToTodo rt db) (query_tag db tagName) s = (Inr ts, s1)"
    by (simp add: getTodosByTag_def)
  then obtain r where "r \<in> set (query_tag db tagName)"
    and "RawTaskRow.uuid r = Todo.uuid todo"
    using decoded_member [OF io_map_decoded assms(2)] by blast
  then show ?thesis
    using tag_query_rows_not_trashed [of r db tagName] by auto
qed

lemma project_todos_exclude_trashed:
  assumes "getProjectByUuid rt db u s = (Inr (Some p), s1)" and "todo \<in> set (Project.todos p)"
  shows "\<exists>t \<in> set (TMTask_table db).
           TMTask.uuid t = Todo.uuid todo \<and> TMTask.trashed t = Some 0"
proof -
  from assms(1) obtain row a n where "query_project_row db u = Some (row, a, n)"
    by (cases "query_project_row db u") (auto simp: getProjectByUuid_def)
  with assms(1) obtain sa where
    run: "io_map (rowToTodo rt db) (query_project_todos db u) sa = (Inr (Project.todos p), s1)"
    unfolding getProjectByUuid_def Let_def
    by (auto elim!: io_bind_Inr_elim)
  obtain r where "r \<in> set (query_project_todos db u)"
    and "RawTaskRow.uuid r = Todo.uuid todo"
    using decoded_member [OF io_map_decoded [OF run] assms(2)] by blast
  then show ?thesis
    using list_query_rows_not_trashed [of r db _ _ _ _ u] by auto
qed

text \<open>
  Claim C2.  No query of the read facade is to return a row whose trashed flag is set,
  and the lookup of a trashed identifier is to return null.  This holds for the list
  views, the search, the listing by tag and the to-dos of a project (the lemmas above).
  It fails for the two lookups of a single entity, whose WHERE clauses test the
  identifier and the type only: on a store that holds a trashed to-do \<open>T\<close> and a
  trashed project \<open>J\<close>, \<open>getTodoByUuid\<close> returns the to-do and \<open>getProjectByUuid\<close>
  returns the project, while the inbox view of the same store is empty.
\<close>

theorem trashed_lookup_returns_entity:
  "map_option (map_option Todo.uuid)
     (returned (getTodoByUuid example_clock store_trashed ''T'' None)) = Some (Some ''T'')
   \<and> map_option (map_option Project.uuid)
     (returned (getProjectByUuid example_clock store_trashed ''J'' None)) = Some (Some ''J'')
   \<and> map TMTask.trashed (TMTask_table store_trashed) = [Some 1, Some 1]
   \<and> returned_uuids (getTodosByList example_clock store_trashed ''inbox'' None) = Some []"
  by code_simp

section \<open>Search and the metacharacters of LIKE\<close>

text \<open>
  Claim C10.  \<open>searchTodos\<close> puts the query between two \<open>%\<close> without escaping, so \<open>_\<close>
  and \<open>%\<close> in the query act as wildcards.  The query \<open>a_c\<close> returns the to-do titled
  \<open>abc\<close>, and the query \<open>a%c\<close> returns the to-dos titled \<open>abc\<close> and \<open>a-b-c\<close>, although
  neither the title nor the (empty) notes of any of them contain the query, even
  without regard to case.
\<close>

theorem search_metacharacters_match:
  "map_option (map (\<lambda>t. (Todo.title t, Todo.notes t)))
     (returned (searchTodos example_clock store_search ''a_c'' None))
     = Some [(''abc'', '''')]
   \<and> \<not> contains_ci ''a_c'' ''abc'' \<and> \<not> contains_ci ''a_c'' ''''
   \<and> map_option (map (\<lambda>t. (Todo.title t, Todo.notes t)))
     (returned (searchTodos example_clock store_search ''a%c'' None))
     = Some [(''abc'', ''''), (''a-b-c'', '''')]
   \<and> \<not> contains_ci ''a%c'' ''abc'' \<and> \<not> contains_ci ''a%c'' ''a-b-c''
   \<and> \<not> contains_ci ''a%c'' ''''"
  by code_simp

end
